theory Spec2Isabelle
  imports Complex_Main
begin

section \<open>Python strings\<close>

text \<open>
  A Python \<open>str\<close> is a sequence of Unicode code points, and \<open>len\<close>, slicing,
  \<open>strip\<close>, \<open>split\<close> and the \<open>re\<close> module all work on code points. A string is
  therefore modelled as the list of its code points (natural numbers), not as a list of
  bytes. \<open>asc\<close> embeds the ASCII literals of the source; the Cyrillic literals of the
  source are written out as code point lists, with a transliteration beside them.
\<close>

type_synonym pystr = "nat list"

definition asc :: "string \<Rightarrow> pystr" where
  "asc s = map of_char s"

subsection \<open>Character classes\<close>

text \<open>
  The classes \<open>\s\<close>, \<open>\d\<close> and \<open>\w\<close> of a \<open>str\<close> pattern, and \<open>str.strip\<close>,
  \<open>str.isspace\<close> and \<open>int\<close>, read the Unicode character database of the interpreter.
  That database is not part of the repository; the tables below are the ones of CPython
  3.11 (Unicode 14.0.0), as ascending lists of inclusive code point ranges.
  \<open>in_ranges\<close> searches such an ascending table and stops at the first range that
  starts beyond the code point.
\<close>

fun in_ranges :: "nat \<Rightarrow> (nat \<times> nat) list \<Rightarrow> bool" where
  "in_ranges c [] = False"
| "in_ranges c ((lo, hi) # rs) =
     (if c < lo then False else if c \<le> hi then True else in_ranges c rs)"

definition space_ranges :: "(nat \<times> nat) list" where
  "space_ranges =
    [(9, 13), (28, 32), (133, 133), (160, 160), (5760, 5760), (8192, 8202),
     (8232, 8233), (8239, 8239), (8287, 8287), (12288, 12288)]"

definition digit_ranges :: "(nat \<times> nat) list" where
  "digit_ranges =
    [(48, 57), (1632, 1641), (1776, 1785), (1984, 1993), (2406, 2415), (2534, 2543),
     (2662, 2671), (2790, 2799), (2918, 2927), (3046, 3055), (3174, 3183), (3302, 3311),
     (3430, 3439), (3558, 3567), (3664, 3673), (3792, 3801), (3872, 3881), (4160, 4169),
     (4240, 4249), (6112, 6121), (6160, 6169), (6470, 6479), (6608, 6617), (6784, 6793),
     (6800, 6809), (6992, 7001), (7088, 7097), (7232, 7241), (7248, 7257), (42528, 42537),
     (43216, 43225), (43264, 43273), (43472, 43481), (43504, 43513), (43600, 43609), (44016, 44025),
     (65296, 65305), (66720, 66729), (68912, 68921), (69734, 69743), (69872, 69881), (69942, 69951),
     (70096, 70105), (70384, 70393), (70736, 70745), (70864, 70873), (71248, 71257), (71360, 71369),
     (71472, 71481), (71904, 71913), (72016, 72025), (72784, 72793), (73040, 73049), (73120, 73129),
     (92768, 92777), (92864, 92873), (93008, 93017), (120782, 120831), (123200, 123209), (123632, 123641),
     (125264, 125273), (130032, 130041)]"

definition word_ranges :: "(nat \<times> nat) list" where
  "word_ranges =
    [(48, 57), (65, 90), (95, 95), (97, 122), (170, 170), (178, 179),
     (181, 181), (185, 186), (188, 190), (192, 214), (216, 246), (248, 705),
     (710, 721), (736, 740), (748, 748), (750, 750), (880, 884), (886, 887),
     (890, 893), (895, 895), (902, 902), (904, 906), (908, 908), (910, 929),
     (931, 1013), (1015, 1153), (1162, 1327), (1329, 1366), (1369, 1369), (1376, 1416),
     (1488, 1514), (1519, 1522), (1568, 1610), (1632, 1641), (1646, 1647), (1649, 1747),
     (1749, 1749), (1765, 1766), (1774, 1788), (1791, 1791), (1808, 1808), (1810, 1839),
     (1869, 1957), (1969, 1969), (1984, 2026), (2036, 2037), (2042, 2042), (2048, 2069),
     (2074, 2074), (2084, 2084), (2088, 2088), (2112, 2136), (2144, 2154), (2160, 2183),
     (2185, 2190), (2208, 2249), (2308, 2361), (2365, 2365), (2384, 2384), (2392, 2401),
     (2406, 2415), (2417, 2432), (2437, 2444), (2447, 2448), (2451, 2472), (2474, 2480),
     (2482, 2482), (2486, 2489), (2493, 2493), (2510, 2510), (2524, 2525), (2527, 2529),
     (2534, 2545), (2548, 2553), (2556, 2556), (2565, 2570), (2575, 2576), (2579, 2600),
     (2602, 2608), (2610, 2611), (2613, 2614), (2616, 2617), (2649, 2652), (2654, 2654),
     (2662, 2671), (2674, 2676), (2693, 2701), (2703, 2705), (2707, 2728), (2730, 2736),
     (2738, 2739), (2741, 2745), (2749, 2749), (2768, 2768), (2784, 2785), (2790, 2799),
     (2809, 2809), (2821, 2828), (2831, 2832), (2835, 2856), (2858, 2864), (2866, 2867),
     (2869, 2873), (2877, 2877), (2908, 2909), (2911, 2913), (2918, 2927), (2929, 2935),
     (2947, 2947), (2949, 2954), (2958, 2960), (2962, 2965), (2969, 2970), (2972, 2972),
     (2974, 2975), (2979, 2980), (2984, 2986), (2990, 3001), (3024, 3024), (3046, 3058),
     (3077, 3084), (3086, 3088), (3090, 3112), (3114, 3129), (3133, 3133), (3160, 3162),
     (3165, 3165), (3168, 3169), (3174, 3183), (3192, 3198), (3200, 3200), (3205, 3212),
     (3214, 3216), (3218, 3240), (3242, 3251), (3253, 3257), (3261, 3261), (3293, 3294),
     (3296, 3297), (3302, 3311), (3313, 3314), (3332, 3340), (3342, 3344), (3346, 3386),
     (3389, 3389), (3406, 3406), (3412, 3414), (3416, 3425), (3430, 3448), (3450, 3455),
     (3461, 3478), (3482, 3505), (3507, 3515), (3517, 3517), (3520, 3526), (3558, 3567),
     (3585, 3632), (3634, 3635), (3648, 3654), (3664, 3673), (3713, 3714), (3716, 3716),
     (3718, 3722), (3724, 3747), (3749, 3749), (3751, 3760), (3762, 3763), (3773, 3773),
     (3776, 3780), (3782, 3782), (3792, 3801), (3804, 3807), (3840, 3840), (3872, 3891),
     (3904, 3911), (3913, 3948), (3976, 3980), (4096, 4138), (4159, 4169), (4176, 4181),
     (4186, 4189), (4193, 4193), (4197, 4198), (4206, 4208), (4213, 4225), (4238, 4238),
     (4240, 4249), (4256, 4293), (4295, 4295), (4301, 4301), (4304, 4346), (4348, 4680),
     (4682, 4685), (4688, 4694), (4696, 4696), (4698, 4701), (4704, 4744), (4746, 4749),
     (4752, 4784), (4786, 4789), (4792, 4798), (4800, 4800), (4802, 4805), (4808, 4822),
     (4824, 4880), (4882, 4885), (4888, 4954), (4969, 4988), (4992, 5007), (5024, 5109),
     (5112, 5117), (5121, 5740), (5743, 5759), (5761, 5786), (5792, 5866), (5870, 5880),
     (5888, 5905), (5919, 5937), (5952, 5969), (5984, 5996), (5998, 6000), (6016, 6067),
     (6103, 6103), (6108, 6108), (6112, 6121), (6128, 6137), (6160, 6169), (6176, 6264),
     (6272, 6276), (6279, 6312), (6314, 6314), (6320, 6389), (6400, 6430), (6470, 6509),
     (6512, 6516), (6528, 6571), (6576, 6601), (6608, 6618), (6656, 6678), (6688, 6740),
     (6784, 6793), (6800, 6809), (6823, 6823), (6917, 6963), (6981, 6988), (6992, 7001),
     (7043, 7072), (7086, 7141), (7168, 7203), (7232, 7241), (7245, 7293), (7296, 7304),
     (7312, 7354), (7357, 7359), (7401, 7404), (7406, 7411), (7413, 7414), (7418, 7418),
     (7424, 7615), (7680, 7957), (7960, 7965), (7968, 8005), (8008, 8013), (8016, 8023),
     (8025, 8025), (8027, 8027), (8029, 8029), (8031, 8061), (8064, 8116), (8118, 8124),
     (8126, 8126), (8130, 8132), (8134, 8140), (8144, 8147), (8150, 8155), (8160, 8172),
     (8178, 8180), (8182, 8188), (8304, 8305), (8308, 8313), (8319, 8329), (8336, 8348),
     (8450, 8450), (8455, 8455), (8458, 8467), (8469, 8469), (8473, 8477), (8484, 8484),
     (8486, 8486), (8488, 8488), (8490, 8493), (8495, 8505), (8508, 8511), (8517, 8521),
     (8526, 8526), (8528, 8585), (9312, 9371), (9450, 9471), (10102, 10131), (11264, 11492),
     (11499, 11502), (11506, 11507), (11517, 11517), (11520, 11557), (11559, 11559), (11565, 11565),
     (11568, 11623), (11631, 11631), (11648, 11670), (11680, 11686), (11688, 11694), (11696, 11702),
     (11704, 11710), (11712, 11718), (11720, 11726), (11728, 11734), (11736, 11742), (11823, 11823),
     (12293, 12295), (12321, 12329), (12337, 12341), (12344, 12348), (12353, 12438), (12445, 12447),
     (12449, 12538), (12540, 12543), (12549, 12591), (12593, 12686), (12690, 12693), (12704, 12735),
     (12784, 12799), (12832, 12841), (12872, 12879), (12881, 12895), (12928, 12937), (12977, 12991),
     (13312, 19903), (19968, 42124), (42192, 42237), (42240, 42508), (42512, 42539), (42560, 42606),
     (42623, 42653), (42656, 42735), (42775, 42783), (42786, 42888), (42891, 42954), (42960, 42961),
     (42963, 42963), (42965, 42969), (42994, 43009), (43011, 43013), (43015, 43018), (43020, 43042),
     (43056, 43061), (43072, 43123), (43138, 43187), (43216, 43225), (43250, 43255), (43259, 43259),
     (43261, 43262), (43264, 43301), (43312, 43334), (43360, 43388), (43396, 43442), (43471, 43481),
     (43488, 43492), (43494, 43518), (43520, 43560), (43584, 43586), (43588, 43595), (43600, 43609),
     (43616, 43638), (43642, 43642), (43646, 43695), (43697, 43697), (43701, 43702), (43705, 43709),
     (43712, 43712), (43714, 43714), (43739, 43741), (43744, 43754), (43762, 43764), (43777, 43782),
     (43785, 43790), (43793, 43798), (43808, 43814), (43816, 43822), (43824, 43866), (43868, 43881),
     (43888, 44002), (44016, 44025), (44032, 55203), (55216, 55238), (55243, 55291), (63744, 64109),
     (64112, 64217), (64256, 64262), (64275, 64279), (64285, 64285), (64287, 64296), (64298, 64310),
     (64312, 64316), (64318, 64318), (64320, 64321), (64323, 64324), (64326, 64433), (64467, 64829),
     (64848, 64911), (64914, 64967), (65008, 65019), (65136, 65140), (65142, 65276), (65296, 65305),
     (65313, 65338), (65345, 65370), (65382, 65470), (65474, 65479), (65482, 65487), (65490, 65495),
     (65498, 65500), (65536, 65547), (65549, 65574), (65576, 65594), (65596, 65597), (65599, 65613),
     (65616, 65629), (65664, 65786), (65799, 65843), (65856, 65912), (65930, 65931), (66176, 66204),
     (66208, 66256), (66273, 66299), (66304, 66339), (66349, 66378), (66384, 66421), (66432, 66461),
     (66464, 66499), (66504, 66511), (66513, 66517), (66560, 66717), (66720, 66729), (66736, 66771),
     (66776, 66811), (66816, 66855), (66864, 66915), (66928, 66938), (66940, 66954), (66956, 66962),
     (66964, 66965), (66967, 66977), (66979, 66993), (66995, 67001), (67003, 67004), (67072, 67382),
     (67392, 67413), (67424, 67431), (67456, 67461), (67463, 67504), (67506, 67514), (67584, 67589),
     (67592, 67592), (67594, 67637), (67639, 67640), (67644, 67644), (67647, 67669), (67672, 67702),
     (67705, 67742), (67751, 67759), (67808, 67826), (67828, 67829), (67835, 67867), (67872, 67897),
     (67968, 68023), (68028, 68047), (68050, 68096), (68112, 68115), (68117, 68119), (68121, 68149),
     (68160, 68168), (68192, 68222), (68224, 68255), (68288, 68295), (68297, 68324), (68331, 68335),
     (68352, 68405), (68416, 68437), (68440, 68466), (68472, 68497), (68521, 68527), (68608, 68680),
     (68736, 68786), (68800, 68850), (68858, 68899), (68912, 68921), (69216, 69246), (69248, 69289),
     (69296, 69297), (69376, 69415), (69424, 69445), (69457, 69460), (69488, 69505), (69552, 69579),
     (69600, 69622), (69635, 69687), (69714, 69743), (69745, 69746), (69749, 69749), (69763, 69807),
     (69840, 69864), (69872, 69881), (69891, 69926), (69942, 69951), (69956, 69956), (69959, 69959),
     (69968, 70002), (70006, 70006), (70019, 70066), (70081, 70084), (70096, 70106), (70108, 70108),
     (70113, 70132), (70144, 70161), (70163, 70187), (70272, 70278), (70280, 70280), (70282, 70285),
     (70287, 70301), (70303, 70312), (70320, 70366), (70384, 70393), (70405, 70412), (70415, 70416),
     (70419, 70440), (70442, 70448), (70450, 70451), (70453, 70457), (70461, 70461), (70480, 70480),
     (70493, 70497), (70656, 70708), (70727, 70730), (70736, 70745), (70751, 70753), (70784, 70831),
     (70852, 70853), (70855, 70855), (70864, 70873), (71040, 71086), (71128, 71131), (71168, 71215),
     (71236, 71236), (71248, 71257), (71296, 71338), (71352, 71352), (71360, 71369), (71424, 71450),
     (71472, 71483), (71488, 71494), (71680, 71723), (71840, 71922), (71935, 71942), (71945, 71945),
     (71948, 71955), (71957, 71958), (71960, 71983), (71999, 71999), (72001, 72001), (72016, 72025),
     (72096, 72103), (72106, 72144), (72161, 72161), (72163, 72163), (72192, 72192), (72203, 72242),
     (72250, 72250), (72272, 72272), (72284, 72329), (72349, 72349), (72368, 72440), (72704, 72712),
     (72714, 72750), (72768, 72768), (72784, 72812), (72818, 72847), (72960, 72966), (72968, 72969),
     (72971, 73008), (73030, 73030), (73040, 73049), (73056, 73061), (73063, 73064), (73066, 73097),
     (73112, 73112), (73120, 73129), (73440, 73458), (73648, 73648), (73664, 73684), (73728, 74649),
     (74752, 74862), (74880, 75075), (77712, 77808), (77824, 78894), (82944, 83526), (92160, 92728),
     (92736, 92766), (92768, 92777), (92784, 92862), (92864, 92873), (92880, 92909), (92928, 92975),
     (92992, 92995), (93008, 93017), (93019, 93025), (93027, 93047), (93053, 93071), (93760, 93846),
     (93952, 94026), (94032, 94032), (94099, 94111), (94176, 94177), (94179, 94179), (94208, 100343),
     (100352, 101589), (101632, 101640), (110576, 110579), (110581, 110587), (110589, 110590), (110592, 110882),
     (110928, 110930), (110948, 110951), (110960, 111355), (113664, 113770), (113776, 113788), (113792, 113800),
     (113808, 113817), (119520, 119539), (119648, 119672), (119808, 119892), (119894, 119964), (119966, 119967),
     (119970, 119970), (119973, 119974), (119977, 119980), (119982, 119993), (119995, 119995), (119997, 120003),
     (120005, 120069), (120071, 120074), (120077, 120084), (120086, 120092), (120094, 120121), (120123, 120126),
     (120128, 120132), (120134, 120134), (120138, 120144), (120146, 120485), (120488, 120512), (120514, 120538),
     (120540, 120570), (120572, 120596), (120598, 120628), (120630, 120654), (120656, 120686), (120688, 120712),
     (120714, 120744), (120746, 120770), (120772, 120779), (120782, 120831), (122624, 122654), (123136, 123180),
     (123191, 123197), (123200, 123209), (123214, 123214), (123536, 123565), (123584, 123627), (123632, 123641),
     (124896, 124902), (124904, 124907), (124909, 124910), (124912, 124926), (124928, 125124), (125127, 125135),
     (125184, 125251), (125259, 125259), (125264, 125273), (126065, 126123), (126125, 126127), (126129, 126132),
     (126209, 126253), (126255, 126269), (126464, 126467), (126469, 126495), (126497, 126498), (126500, 126500),
     (126503, 126503), (126505, 126514), (126516, 126519), (126521, 126521), (126523, 126523), (126530, 126530),
     (126535, 126535), (126537, 126537), (126539, 126539), (126541, 126543), (126545, 126546), (126548, 126548),
     (126551, 126551), (126553, 126553), (126555, 126555), (126557, 126557), (126559, 126559), (126561, 126562),
     (126564, 126564), (126567, 126570), (126572, 126578), (126580, 126583), (126585, 126588), (126590, 126590),
     (126592, 126601), (126603, 126619), (126625, 126627), (126629, 126633), (126635, 126651), (127232, 127244),
     (130032, 130041), (131072, 173791), (173824, 177976), (177984, 178205), (178208, 183969), (183984, 191456),
     (194560, 195101), (196608, 201546)]"

definition formula_ranges :: "(nat \<times> nat) list" where
  "formula_ranges =
    [(9, 13), (28, 32), (40, 43), (45, 45), (47, 57), (65, 90),
     (97, 122), (133, 133), (160, 160), (304, 305), (383, 383), (1040, 1103),
     (5760, 5760), (7296, 7302), (8192, 8202), (8232, 8233), (8239, 8239), (8287, 8287),
     (8490, 8490), (12288, 12288)]"

text \<open>\<open>\s\<close> and \<open>str.isspace\<close>: Unicode white space.\<close>

definition is_space :: "nat \<Rightarrow> bool" where
  "is_space c = in_ranges c space_ranges"

text \<open>\<open>\d\<close>: the decimal digits (category Nd). Every block of the table holds the
  digits 0 to 9 in order, one or more times, so the value of a digit is its offset in
  the block modulo 10; this is the value \<open>int\<close> gives it.\<close>

definition is_digit :: "nat \<Rightarrow> bool" where
  "is_digit c = in_ranges c digit_ranges"

fun block_start :: "nat \<Rightarrow> (nat \<times> nat) list \<Rightarrow> nat option" where
  "block_start c [] = None"
| "block_start c ((lo, hi) # rs) =
     (if c < lo then None else if c \<le> hi then Some lo else block_start c rs)"

definition digit_value :: "nat \<Rightarrow> nat" where
  "digit_value c = (case block_start c digit_ranges of None \<Rightarrow> 0 | Some lo \<Rightarrow> (c - lo) mod 10)"

text \<open>\<open>\w\<close>: the alphanumeric code points and the underscore.\<close>

definition is_word :: "nat \<Rightarrow> bool" where
  "is_word c = in_ranges c word_ranges"

subsection \<open>\<open>str.strip\<close> and \<open>str.split\<close>\<close>

text \<open>\<open>s.strip()\<close> removes the white space at both ends.\<close>

definition strip :: "pystr \<Rightarrow> pystr" where
  "strip s = rev (dropWhile is_space (rev (dropWhile is_space s)))"

text \<open>
  \<open>s.split(sep)\<close> cuts at the occurrences of \<open>sep\<close>, found from left to right
  without overlap, and keeps the empty pieces. The source calls it with the literals
  \<open>'\n\n'\<close> and \<open>'_'\<close> only; an empty separator (a \<open>ValueError\<close> in Python) does
  not occur.
\<close>

function split :: "pystr \<Rightarrow> pystr \<Rightarrow> pystr list" where
  "split sep s =
     (if s = [] then [[]]
      else if sep \<noteq> [] \<and> take (length sep) s = sep
      then [] # split sep (drop (length sep) s)
      else (case split sep (tl s) of
              [] \<Rightarrow> [[hd s]]
            | p # ps \<Rightarrow> (hd s # p) # ps))"
  by pat_completeness auto
termination
  by (relation "measure (\<lambda>(sep, s). length s)") (auto simp: neq_Nil_conv)

declare split.simps [simp del]

subsection \<open>Integers: \<open>int(s)\<close> and the formatting of an integer\<close>

text \<open>
  The exceptions of the program are values of the type \<open>error\<close>; a function that can
  raise returns \<open>error + 'a\<close>, with \<open>Inl\<close> for the exception.
\<close>

datatype error =
    IntValueError pystr   \<comment> \<open>the \<open>ValueError\<close> of \<open>int(s)\<close> on the literal \<open>s\<close>\<close>
  | ValueError pystr      \<comment> \<open>a \<open>ValueError\<close> raised with the given message\<close>
  | KeyError string       \<comment> \<open>a missing dictionary key\<close>
  | IndexError            \<comment> \<open>a list index out of range\<close>
  | TypeError             \<comment> \<open>a value of a type that the operation does not take\<close>
  | IntTooLarge           \<comment> \<open>the \<open>ValueError\<close> of turning an integer beyond the digit limit into text\<close>
  | UnicodeEncodeError    \<comment> \<open>a string that cannot be encoded in UTF-8\<close>
  | OSError pystr         \<comment> \<open>an \<open>OSError\<close> of the file system, such as \<open>FileNotFoundError\<close>\<close>
  | RuntimeFault pystr    \<comment> \<open>an \<open>Exception\<close> of an external collaborator; the text is \<open>str(e)\<close>\<close>

text \<open>
  \<open>int(s)\<close> in base 10: white space is removed at both ends (the Unicode white space
  without the four separators U+001C to U+001F, which \<open>int\<close> does not accept), one
  sign may follow, and the rest is one or more groups of decimal digits joined by single
  underscores. Anything else is a \<open>ValueError\<close>. Python integers are unbounded, but
  the conversion between an integer and its decimal text is limited: with the default
  setting of CPython 3.11 (\<open>sys.get_int_max_str_digits() = 4300\<close>), \<open>int(s)\<close> raises
  a \<open>ValueError\<close> when \<open>s\<close> has more than 4300 digits, leading zeros counted.
\<close>

definition int_max_str_digits :: nat where
  "int_max_str_digits = 4300"

definition is_int_space :: "nat \<Rightarrow> bool" where
  "is_int_space c = (is_space c \<and> \<not> (28 \<le> c \<and> c \<le> 31))"

definition digits_value :: "pystr \<Rightarrow> nat" where
  "digits_value ds = foldl (\<lambda>a c. 10 * a + digit_value c) 0 ds"

definition py_int :: "pystr \<Rightarrow> error + int" where
  "py_int s =
     (let t = rev (dropWhile is_int_space (rev (dropWhile is_int_space s)));
          neg = (t \<noteq> [] \<and> hd t = 45);
          u = (if t \<noteq> [] \<and> (hd t = 43 \<or> hd t = 45) then tl t else t);
          groups = split [95] u
      in if list_all (\<lambda>g. g \<noteq> [] \<and> list_all is_digit g) groups \<and>
            length (concat groups) \<le> int_max_str_digits
         then Inr (if neg then - int (digits_value (concat groups))
                   else int (digits_value (concat groups)))
         else Inl (IntValueError s))"

text \<open>
  The decimal text of an integer, as \<open>str(n)\<close> and an f-string give it. The limit
  of 4300 digits holds for this direction too: \<open>str(n)\<close> raises a \<open>ValueError\<close>
  for an integer of more than 4300 digits, and \<open>formattable\<close> says that an integer
  is within the limit. The f-strings of the program format a grade, a page number or
  a counter; the model formats them with \<open>str_int\<close>, which is defined for every
  integer, and checks the limit where the integers of a document are written
  (\<open>json.dump\<close>, below).
\<close>

fun str_nat :: "nat \<Rightarrow> pystr" where
  "str_nat n = (if n < 10 then [48 + n] else str_nat (n div 10) @ [48 + n mod 10])"

declare str_nat.simps [simp del]

definition str_int :: "int \<Rightarrow> pystr" where
  "str_int i = (if i < 0 then 45 # str_nat (nat (- i)) else str_nat (nat i))"

definition formattable :: "int \<Rightarrow> bool" where
  "formattable i = (length (str_nat (nat \<bar>i\<bar>)) \<le> int_max_str_digits)"

section \<open>Pattern matching\<close>

text \<open>
  \<open>re.findall\<close> scans the text from left to right: at each position it tries to match
  the pattern, records the first match the backtracking search finds, and goes on after
  the end of that match; where nothing matches it moves one character on. A matcher
  is given the character before the position (for \<open>\b\<close>) and the text from the position
  on, and returns what \<open>findall\<close> records together with the text after the match.
  A match of each pattern of this program consumes at least one character; the test
  \<open>length r < length s\<close> states this and makes the scan terminate for any matcher.
\<close>

function findall :: "(nat option \<Rightarrow> pystr \<Rightarrow> ('a \<times> pystr) option) \<Rightarrow> nat option \<Rightarrow> pystr \<Rightarrow> 'a list" where
  "findall m prev s =
     (case m prev s of
        Some (x, r) \<Rightarrow>
          if length r < length s
          then x # findall m (Some (last (take (length s - length r) s))) r
          else [x]
      | None \<Rightarrow> (case s of [] \<Rightarrow> [] | c # cs \<Rightarrow> findall m (Some c) cs))"
  by pat_completeness auto
termination
  by (relation "measure (\<lambda>(m, prev, s). length s)") auto

declare findall.simps [simp del]

subsection \<open>The task pattern\<close>

text \<open>
  \<open>(\d+)\.\s+(.*?)(?=\n\d+\.|$)\<close> with \<open>re.DOTALL\<close>.
  \<^item> \<open>\d+\<close> is greedy and takes the whole run of digits; a shorter run is followed
    by a digit, never by the dot, so backtracking into it cannot succeed.
  \<^item> \<open>\s+\<close> takes the whole run of white space (at least one character); what follows
    it always matches, so the search never backtracks into it.
  \<^item> \<open>(.*?)\<close> is lazy and, with \<open>DOTALL\<close>, matches any character: the body ends at
    the first position where the lookahead holds, that is where a newline, digits and a
    dot follow (\<open>item_ahead\<close>), or at \<open>$\<close> (\<open>at_end\<close>: the end of the text, or just
    before a newline that ends the text). The end of the text is such a position, so
    the body always ends.
\<close>

definition item_ahead :: "pystr \<Rightarrow> bool" where
  "item_ahead s =
     (case s of
        [] \<Rightarrow> False
      | c # cs \<Rightarrow> c = 10 \<and> takeWhile is_digit cs \<noteq> [] \<and>
          (case dropWhile is_digit cs of [] \<Rightarrow> False | d # _ \<Rightarrow> d = 46))"

definition at_end :: "pystr \<Rightarrow> bool" where
  "at_end s = (s = [] \<or> s = [10])"

fun lazy_body :: "pystr \<Rightarrow> pystr \<times> pystr" where
  "lazy_body [] = ([], [])"
| "lazy_body (c # cs) =
     (if item_ahead (c # cs) \<or> at_end (c # cs) then ([], c # cs)
      else (case lazy_body cs of (b, r) \<Rightarrow> (c # b, r)))"

definition task_match :: "nat option \<Rightarrow> pystr \<Rightarrow> ((pystr \<times> pystr) \<times> pystr) option" where
  "task_match prev s =
     (let task_num = takeWhile is_digit s; r1 = dropWhile is_digit s
      in if task_num = [] then None
         else (case r1 of
                 [] \<Rightarrow> None
               | d # r2 \<Rightarrow>
                   if d \<noteq> 46 \<or> takeWhile is_space r2 = [] then None
                   else (case lazy_body (dropWhile is_space r2) of
                           (task_text, r) \<Rightarrow> Some ((task_num, task_text), r))))"

subsection \<open>The formula pattern\<close>

text \<open>
  \<open>[a-z\<dots>0-9\s\+\-\*\/\(\)]+\s*=\s*[a-z\<dots>0-9\s\+\-\*\/\(\)]+\<close> with
  \<open>re.IGNORECASE\<close>, where the letters are the Latin \<open>a-z\<close> and the Cyrillic range
  U+0430 to U+044F. \<open>formula_ranges\<close> is the set of code points the class accepts when
  case is ignored (CPython 3.11): both cases of the two alphabets, the digits 0 to 9,
  the white space, the operators and parentheses, and the code points whose case
  mapping falls into the class (U+0130, U+0131, U+017F, U+1C80 to U+1C86, U+212A).
  The class contains the white space and not the equals sign. So the first run is the
  whole run of class characters up to an equals sign (both \<open>\s*\<close> are empty or are
  given back to the class), and the second run is the whole run after it, of at least
  one character.
\<close>

definition is_formula_char :: "nat \<Rightarrow> bool" where
  "is_formula_char c = in_ranges c formula_ranges"

definition formula_match :: "nat option \<Rightarrow> pystr \<Rightarrow> (pystr \<times> pystr) option" where
  "formula_match prev s =
     (let a = takeWhile is_formula_char s; r1 = dropWhile is_formula_char s
      in if a = [] then None
         else (case r1 of
                 [] \<Rightarrow> None
               | e # r2 \<Rightarrow>
                   if e \<noteq> 61 \<or> takeWhile is_formula_char r2 = [] then None
                   else Some (a @ [61] @ takeWhile is_formula_char r2,
                              dropWhile is_formula_char r2)))"

subsection \<open>The date pattern and the name pattern\<close>

text \<open>\<open>\b\<close> holds where exactly one of the characters before and after the
  position is a word character; the two ends of the text count as non-word.\<close>

definition word_boundary :: "nat option \<Rightarrow> pystr \<Rightarrow> bool" where
  "word_boundary prev s =
     ((case prev of None \<Rightarrow> False | Some c \<Rightarrow> is_word c) \<noteq>
      (case s of [] \<Rightarrow> False | c # _ \<Rightarrow> is_word c))"

text \<open>\<open>\.?\<close> at the end of a pattern: greedy, it takes the dot when there is one.\<close>

definition opt_dot :: "pystr \<Rightarrow> pystr \<times> pystr" where
  "opt_dot s = (case s of [] \<Rightarrow> ([], []) | c # cs \<Rightarrow> if c = 46 then ([46], cs) else ([], s))"

text \<open>
  \<open>\b\d{1,4}\s*g\.?|\b\d{1,4}[-\<dots>]\d{1,4}\s*gg\.?\<close>, where \<open>g\<close> stands for the
  Cyrillic letter U+0433 and the class holds the hyphen and the en dash U+2013.
  In both alternatives a run of digits must be followed by a character that is not a
  digit, so \<open>\d{1,4}\<close> matches only a whole run of one to four digits; \<open>\s*\<close> takes
  the whole run of white space, since the letter after it is not white space. The
  second alternative is tried only where the first fails.
\<close>

definition date_alt1 :: "nat option \<Rightarrow> pystr \<Rightarrow> (pystr \<times> pystr) option" where
  "date_alt1 prev s =
     (let ds = takeWhile is_digit s; r1 = dropWhile is_digit s;
          ws = takeWhile is_space r1; r2 = dropWhile is_space r1
      in if \<not> word_boundary prev s \<or> ds = [] \<or> 4 < length ds then None
         else (case r2 of
                 [] \<Rightarrow> None
               | g # r3 \<Rightarrow>
                   if g \<noteq> 1075 then None
                   else (case opt_dot r3 of (d, r4) \<Rightarrow> Some (ds @ ws @ [1075] @ d, r4))))"

definition date_alt2 :: "nat option \<Rightarrow> pystr \<Rightarrow> (pystr \<times> pystr) option" where
  "date_alt2 prev s =
     (let ds = takeWhile is_digit s; r1 = dropWhile is_digit s
      in if \<not> word_boundary prev s \<or> ds = [] \<or> 4 < length ds then None
         else (case r1 of
                 [] \<Rightarrow> None
               | h # r2 \<Rightarrow>
                   (let ds2 = takeWhile is_digit r2; r3 = dropWhile is_digit r2;
                        ws = takeWhile is_space r3; r4 = dropWhile is_space r3
                    in if (h \<noteq> 45 \<and> h \<noteq> 8211) \<or> ds2 = [] \<or> 4 < length ds2 then None
                       else if take 2 r4 \<noteq> [1075, 1075] then None
                       else (case opt_dot (drop 2 r4) of
                               (d, r5) \<Rightarrow> Some (ds @ [h] @ ds2 @ ws @ [1075, 1075] @ d, r5)))))"

definition date_match :: "nat option \<Rightarrow> pystr \<Rightarrow> (pystr \<times> pystr) option" where
  "date_match prev s =
     (case date_alt1 prev s of Some m \<Rightarrow> Some m | None \<Rightarrow> date_alt2 prev s)"

text \<open>
  \<open>\b[A-YaYo][a-yayo]+\s+[A-YaYo][a-yayo]+\<close> over the Cyrillic alphabet: a capital
  letter (U+0410 to U+042F, or U+0401), one or more small letters (U+0430 to U+044F, or
  U+0451), white space, and the same again. Each run is followed by a character outside
  its class, so each greedy run is the whole run.
\<close>

definition is_upper_ru :: "nat \<Rightarrow> bool" where
  "is_upper_ru c = ((1040 \<le> c \<and> c \<le> 1071) \<or> c = 1025)"

definition is_lower_ru :: "nat \<Rightarrow> bool" where
  "is_lower_ru c = ((1072 \<le> c \<and> c \<le> 1103) \<or> c = 1105)"

definition name_match :: "nat option \<Rightarrow> pystr \<Rightarrow> (pystr \<times> pystr) option" where
  "name_match prev s =
     (case s of
        [] \<Rightarrow> None
      | u1 # r0 \<Rightarrow>
          (let l1 = takeWhile is_lower_ru r0; r1 = dropWhile is_lower_ru r0;
               ws = takeWhile is_space r1; r2 = dropWhile is_space r1
           in if \<not> word_boundary prev s \<or> \<not> is_upper_ru u1 \<or> l1 = [] \<or> ws = [] then None
              else (case r2 of
                      [] \<Rightarrow> None
                    | u2 # r3 \<Rightarrow>
                        if \<not> is_upper_ru u2 \<or> takeWhile is_lower_ru r3 = [] then None
                        else Some (u1 # l1 @ ws @ u2 # takeWhile is_lower_ru r3,
                                   dropWhile is_lower_ru r3))))"

section \<open>The segmenter (2_structure_data.py)\<close>

subsection \<open>Data\<close>

text \<open>
  \<open>TextbookMetadata\<close> (config.py) is a typed record. A chunk is a dictionary with the
  three keys \<open>chunk_id\<close>, \<open>metadata\<close> and \<open>content\<close>. The dictionaries under
  \<open>metadata\<close> and \<open>content\<close> have the keys the program writes; a key the program may
  leave out is an optional field, \<open>None\<close> when the key is absent. The key \<open>chapter\<close>
  is read by \<open>create_chunk_id\<close> and written nowhere.
\<close>

record textbook_metadata =
  title :: pystr
  author :: pystr
  year :: int
  grade :: int
  subject :: pystr
  isbn :: "pystr option"
  part :: "int option"

record chunk_metadata =
  md_page :: "int option"
  md_content_type :: "pystr option"
  md_task_number :: "int option"
  md_dates :: "pystr list option"
  md_historical_figures :: "pystr list option"
  md_textbook_title :: "pystr option"
  md_grade :: "int option"
  md_subject :: "pystr option"
  md_author :: "pystr option"
  md_chapter :: "int option"

record chunk_content =
  c_text :: pystr
  c_formulas :: "pystr list option"

record chunk =
  chunk_id :: pystr
  metadata :: chunk_metadata
  content :: chunk_content

definition empty_metadata :: chunk_metadata where
  "empty_metadata =
     \<lparr>md_page = None, md_content_type = None, md_task_number = None, md_dates = None,
      md_historical_figures = None, md_textbook_title = None, md_grade = None,
      md_subject = None, md_author = None, md_chapter = None\<rparr>"

text \<open>\<open>ChunkCreator\<close>: the subject and the counter of the identifiers.\<close>

record chunk_creator =
  creator_subject :: pystr
  chunk_id_counter :: int

definition new_chunk_creator :: "pystr \<Rightarrow> chunk_creator" where
  "new_chunk_creator subj = \<lparr>creator_subject = subj, chunk_id_counter = 0\<rparr>"

subsection \<open>\<open>create_chunk_id\<close>\<close>

text \<open>
  The counter is incremented first; the identifier is then formatted from the subject of
  the creator, \<open>metadata['grade']\<close>, \<open>metadata.get('chapter', 0)\<close>,
  \<open>metadata['page']\<close> and the new counter. A missing \<open>grade\<close> or \<open>page\<close> is a
  \<open>KeyError\<close>.
\<close>

definition create_chunk_id :: "chunk_creator \<Rightarrow> chunk_metadata \<Rightarrow> error + (pystr \<times> chunk_creator)" where
  "create_chunk_id self md =
     (let self' = self\<lparr>chunk_id_counter := chunk_id_counter self + 1\<rparr>
      in case md_grade md of
           None \<Rightarrow> Inl (KeyError ''grade'')
         | Some g \<Rightarrow>
             (case md_page md of
                None \<Rightarrow> Inl (KeyError ''page'')
              | Some p \<Rightarrow>
                  Inr (creator_subject self' @ asc ''_'' @ str_int g @ asc ''_ch'' @
                       str_int (case md_chapter md of None \<Rightarrow> 0 | Some ch \<Rightarrow> ch) @
                       asc ''_p'' @ str_int p @ asc ''_'' @
                       str_int (chunk_id_counter self'), self')))"

subsection \<open>\<open>_extract_formulas\<close> and \<open>extract_math_tasks\<close>\<close>

definition extract_formulas :: "pystr \<Rightarrow> pystr list" where
  "extract_formulas txt = map strip (findall formula_match None txt)"

text \<open>
  One chunk for each pair \<open>(task_num, task_text)\<close> that \<open>re.findall\<close> returns, in
  order. \<open>int(task_num)\<close> is the only call that can raise.
\<close>

fun task_chunks :: "int \<Rightarrow> (pystr \<times> pystr) list \<Rightarrow> error + chunk list" where
  "task_chunks page_num [] = Inr []"
| "task_chunks page_num ((task_num, task_text) # tasks) =
     (case py_int task_num of
        Inl e \<Rightarrow> Inl e
      | Inr n \<Rightarrow>
          (case task_chunks page_num tasks of
             Inl e \<Rightarrow> Inl e
           | Inr chunks \<Rightarrow>
               Inr (\<lparr>chunk_id = asc ''math_temp_'' @ str_int page_num @ asc ''_'' @ task_num,
                     metadata = empty_metadata
                       \<lparr>md_page := Some page_num, md_task_number := Some n,
                        md_content_type := Some (asc ''task'')\<rparr>,
                     content = \<lparr>c_text = strip task_text,
                                c_formulas = Some (extract_formulas task_text)\<rparr>\<rparr> # chunks)))"

definition extract_math_tasks :: "pystr \<Rightarrow> int \<Rightarrow> error + chunk list" where
  "extract_math_tasks page_text page_num =
     task_chunks page_num (findall task_match None page_text)"

subsection \<open>\<open>extract_history_content\<close>\<close>

text \<open>
  The paragraphs are the pieces between \<open>'\n\n'\<close>, stripped, without those that are
  empty after stripping. \<open>list(set(names))\<close> lists each name once; the order in which
  Python lists a set is not specified, the model lists the names in the order
  \<open>remdups\<close> leaves them, and nothing below depends on that order.
\<close>

definition paragraphs :: "pystr \<Rightarrow> pystr list" where
  "paragraphs page_text = map strip (filter (\<lambda>p. strip p \<noteq> []) (split [10, 10] page_text))"

definition history_chunk :: "int \<Rightarrow> nat \<Rightarrow> pystr \<Rightarrow> chunk" where
  "history_chunk page_num idx para =
     \<lparr>chunk_id = asc ''history_temp_'' @ str_int page_num @ asc ''_'' @ str_int (int idx),
      metadata = empty_metadata
        \<lparr>md_page := Some page_num, md_content_type := Some (asc ''text''),
         md_dates := Some (findall date_match None para),
         md_historical_figures := Some (remdups (findall name_match None para))\<rparr>,
      content = \<lparr>c_text = para, c_formulas = None\<rparr>\<rparr>"

definition extract_history_content :: "pystr \<Rightarrow> int \<Rightarrow> chunk list" where
  "extract_history_content page_text page_num =
     map (\<lambda>(idx, para). history_chunk page_num idx para)
         (enumerate 0 (paragraphs page_text))"

section \<open>JSON documents\<close>

text \<open>
  The program writes its documents with \<open>json.dump(obj, f, ensure_ascii=False,
  indent=2)\<close> into a file opened with \<open>encoding='utf-8'\<close>, and reads them with
  \<open>json.load\<close>. The Python values that occur in these documents are \<open>None\<close>,
  integers, strings, lists and dictionaries with string keys; \<open>json.dump\<close> turns a
  dictionary into an object with the same keys in the same order, a list into an array,
  a string into a string, an integer into a number and \<open>None\<close> into \<open>null\<close>, and
  \<open>json.load\<close> does the reverse. The content of a file is modelled by the JSON value
  it holds; the characters that spell the value (escapes, indentation) are the
  library's and are not modelled.
\<close>

datatype pyval =
    PNone
  | PInt int
  | PStr pystr
  | PList "pyval list"
  | PDict "(pystr \<times> pyval) list"

datatype json =
    JNull
  | JNumber int
  | JString pystr
  | JArray "json list"
  | JObject "(pystr \<times> json) list"

subsection \<open>\<open>json.dump\<close>\<close>

text \<open>
  Writing can fail in two ways. A string with a lone surrogate (a code point from
  U+D800 to U+DFFF, which \<open>json.load\<close> yields for an escaped surrogate in a page file)
  cannot be encoded in UTF-8: with \<open>ensure_ascii=False\<close> the string is written as it
  is and the file raises \<open>UnicodeEncodeError\<close>. An integer of more than 4300 digits
  cannot be turned into text. The value is written piece by piece in the order of the
  document, so the exception is that of the first such string or integer.
\<close>

definition encodable :: "pystr \<Rightarrow> bool" where
  "encodable s = list_all (\<lambda>c. c < 55296 \<or> 57343 < c) s"

fun first_fault :: "error option list \<Rightarrow> error option" where
  "first_fault [] = None"
| "first_fault (None # fs) = first_fault fs"
| "first_fault (Some e # fs) = Some e"

fun dump_fault :: "pyval \<Rightarrow> error option" where
  "dump_fault PNone = None"
| "dump_fault (PInt i) = (if formattable i then None else Some IntTooLarge)"
| "dump_fault (PStr s) = (if encodable s then None else Some UnicodeEncodeError)"
| "dump_fault (PList vs) = first_fault (map dump_fault vs)"
| "dump_fault (PDict kvs) =
     first_fault (map (\<lambda>kv. if encodable (fst kv) then dump_fault (snd kv)
                              else Some UnicodeEncodeError) kvs)"

fun to_json :: "pyval \<Rightarrow> json" where
  "to_json PNone = JNull"
| "to_json (PInt i) = JNumber i"
| "to_json (PStr s) = JString s"
| "to_json (PList vs) = JArray (map to_json vs)"
| "to_json (PDict kvs) = JObject (map (\<lambda>kv. (fst kv, to_json (snd kv))) kvs)"

definition json_dump :: "pyval \<Rightarrow> error + json" where
  "json_dump v = (case dump_fault v of Some e \<Rightarrow> Inl e | None \<Rightarrow> Inr (to_json v))"

subsection \<open>\<open>json.load\<close>\<close>

text \<open>Reading a number of more than 4300 digits raises the \<open>ValueError\<close> of
  \<open>int\<close>; every other JSON value of the kinds above is read.\<close>

fun load_fault :: "json \<Rightarrow> error option" where
  "load_fault JNull = None"
| "load_fault (JNumber i) =
     (if formattable i then None else Some (IntValueError (str_int i)))"
| "load_fault (JString s) = None"
| "load_fault (JArray js) = first_fault (map load_fault js)"
| "load_fault (JObject kjs) = first_fault (map (\<lambda>kj. load_fault (snd kj)) kjs)"

fun of_json :: "json \<Rightarrow> pyval" where
  "of_json JNull = PNone"
| "of_json (JNumber i) = PInt i"
| "of_json (JString s) = PStr s"
| "of_json (JArray js) = PList (map of_json js)"
| "of_json (JObject kjs) = PDict (map (\<lambda>kj. (fst kj, of_json (snd kj))) kjs)"

definition json_load :: "json \<Rightarrow> error + pyval" where
  "json_load j = (case load_fault j of Some e \<Rightarrow> Inl e | None \<Rightarrow> Inr (of_json j))"

subsection \<open>The dictionaries of the segmenter\<close>

text \<open>
  The dictionary that a record of the model stands for. The keys of the metadata are
  listed in the order in which the program inserts them: \<open>page\<close>, then
  \<open>task_number\<close> and \<open>content_type\<close> (mathematics) or \<open>content_type\<close>,
  \<open>dates\<close> and \<open>historical_figures\<close> (history), then the four keys of the book.
\<close>

definition opt_key :: "string \<Rightarrow> ('a \<Rightarrow> pyval) \<Rightarrow> 'a option \<Rightarrow> (pystr \<times> pyval) list" where
  "opt_key k f v = (case v of None \<Rightarrow> [] | Some x \<Rightarrow> [(asc k, f x)])"

definition py_strs :: "pystr list \<Rightarrow> pyval" where
  "py_strs xs = PList (map PStr xs)"

definition metadata_dict :: "chunk_metadata \<Rightarrow> pyval" where
  "metadata_dict m =
     PDict (opt_key ''page'' PInt (md_page m) @
            opt_key ''task_number'' PInt (md_task_number m) @
            opt_key ''content_type'' PStr (md_content_type m) @
            opt_key ''dates'' py_strs (md_dates m) @
            opt_key ''historical_figures'' py_strs (md_historical_figures m) @
            opt_key ''textbook_title'' PStr (md_textbook_title m) @
            opt_key ''grade'' PInt (md_grade m) @
            opt_key ''subject'' PStr (md_subject m) @
            opt_key ''author'' PStr (md_author m) @
            opt_key ''chapter'' PInt (md_chapter m))"

definition content_dict :: "chunk_content \<Rightarrow> pyval" where
  "content_dict c =
     PDict ((asc ''text'', PStr (c_text c)) # opt_key ''formulas'' py_strs (c_formulas c))"

definition chunk_dict :: "chunk \<Rightarrow> pyval" where
  "chunk_dict c =
     PDict [(asc ''chunk_id'', PStr (chunk_id c)),
            (asc ''metadata'', metadata_dict (metadata c)),
            (asc ''content'', content_dict (content c))]"

text \<open>\<open>textbook_metadata.model_dump()\<close>: every field is a key; an optional field
  without a value is \<open>None\<close>.\<close>

definition model_dump :: "textbook_metadata \<Rightarrow> pyval" where
  "model_dump tm =
     PDict [(asc ''title'', PStr (title tm)), (asc ''author'', PStr (author tm)),
            (asc ''year'', PInt (year tm)), (asc ''grade'', PInt (grade tm)),
            (asc ''subject'', PStr (subject tm)),
            (asc ''isbn'', case isbn tm of None \<Rightarrow> PNone | Some s \<Rightarrow> PStr s),
            (asc ''part'', case part tm of None \<Rightarrow> PNone | Some p \<Rightarrow> PInt p)]"

text \<open>The chunk-collection document: the dictionary that \<open>structure_textbook\<close>
  passes to \<open>json.dump\<close>.\<close>

record chunk_document =
  doc_metadata :: textbook_metadata
  doc_chunks :: "chunk list"
  doc_total_chunks :: int

definition document_dict :: "chunk_document \<Rightarrow> pyval" where
  "document_dict d =
     PDict [(asc ''metadata'', model_dump (doc_metadata d)),
            (asc ''chunks'', PList (map chunk_dict (doc_chunks d))),
            (asc ''total_chunks'', PInt (doc_total_chunks d))]"

subsection \<open>\<open>structure_textbook\<close>\<close>

text \<open>
  The parameter \<open>ocr_dir\<close> is given by the sorted list of its files
  \<open>page_*.json\<close>: for each file its stem (the name without \<open>.json\<close>) and the
  value under the key \<open>text\<close> of the JSON object it holds, \<open>None\<close> when the key is
  absent. The parameter \<open>output_dir\<close> is given by what happens when a file of a given
  name is opened in it for writing: \<open>None\<close> when the file is opened, or the exception
  of \<open>open\<close> (a \<open>ValueError\<close> for a name with a NUL character, a
  \<open>FileNotFoundError\<close> for a name with a slash into a directory that does not exist,
  and so on).
\<close>

record page_file =
  stem :: pystr
  page_data_text :: "pystr option"

text \<open>The subjects the function knows: \<open>matematika\<close> and \<open>istoriya\<close> in Cyrillic.\<close>

definition subject_math :: pystr where
  "subject_math = [1084, 1072, 1090, 1077, 1084, 1072, 1090, 1080, 1082, 1072]"

definition subject_history :: pystr where
  "subject_history = [1080, 1089, 1090, 1086, 1088, 1080, 1103]"

text \<open>\<open>int(page_file.stem.split('_')[1])\<close>.\<close>

definition page_number :: "pystr \<Rightarrow> error + int" where
  "page_number st =
     (case split [95] st of
        _ # x # _ \<Rightarrow> py_int x
      | _ \<Rightarrow> Inl IndexError)"

text \<open>The second loop over the chunks of a page: the metadata of the book is added
  to the metadata of the chunk, and the final identifier replaces the temporary one.\<close>

fun assign_ids :: "textbook_metadata \<Rightarrow> chunk_creator \<Rightarrow> chunk list \<Rightarrow> error + (chunk list \<times> chunk_creator)" where
  "assign_ids tm cc [] = Inr ([], cc)"
| "assign_ids tm cc (c # cs) =
     (let md = (metadata c)
            \<lparr>md_textbook_title := Some (title tm), md_grade := Some (grade tm),
             md_subject := Some (subject tm), md_author := Some (author tm)\<rparr>
      in case create_chunk_id cc md of
           Inl e \<Rightarrow> Inl e
         | Inr (cid, cc') \<Rightarrow>
             (case assign_ids tm cc' cs of
                Inl e \<Rightarrow> Inl e
              | Inr (cs', cc'') \<Rightarrow> Inr (c\<lparr>chunk_id := cid, metadata := md\<rparr> # cs', cc'')))"

text \<open>The branch on the subject: the chunks of the page, or \<open>None\<close> where the
  subject is neither of the two and the loop goes on with the next page
  (\<open>continue\<close>).\<close>

definition segment :: "textbook_metadata \<Rightarrow> pystr \<Rightarrow> int \<Rightarrow> error + chunk list option" where
  "segment tm page_text page_num =
     (if subject tm = subject_math
      then (case extract_math_tasks page_text page_num of
              Inl e \<Rightarrow> Inl e
            | Inr chunks \<Rightarrow> Inr (Some chunks))
      else if subject tm = subject_history
      then Inr (Some (extract_history_content page_text page_num))
      else Inr None)"

text \<open>The loop over the page files. The page number and the text of a page are read
  before the branch on the subject.\<close>

fun process_pages :: "textbook_metadata \<Rightarrow> chunk_creator \<Rightarrow> chunk list \<Rightarrow> page_file list \<Rightarrow> error + chunk list" where
  "process_pages tm cc all_chunks [] = Inr all_chunks"
| "process_pages tm cc all_chunks (pf # pfs) =
     (case page_number (stem pf) of
        Inl e \<Rightarrow> Inl e
      | Inr page_num \<Rightarrow>
          (case page_data_text pf of
             None \<Rightarrow> Inl (KeyError ''text'')
           | Some page_text \<Rightarrow>
               (case segment tm page_text page_num of
                  Inl e \<Rightarrow> Inl e
                | Inr None \<Rightarrow> process_pages tm cc all_chunks pfs
                | Inr (Some chunks) \<Rightarrow>
                    (case assign_ids tm cc chunks of
                       Inl e \<Rightarrow> Inl e
                     | Inr (chunks', cc') \<Rightarrow>
                         process_pages tm cc' (all_chunks @ chunks') pfs))))"

text \<open>
  After the loop the output file is opened and the document is dumped into it. The
  result of the call is the name of the file, the document and the JSON value written
  to the file, and the returned list of chunks.
\<close>

record structure_result =
  output_file :: pystr
  written :: chunk_document
  file_content :: json
  returned :: "chunk list"

definition structure_textbook :: "page_file list \<Rightarrow> textbook_metadata \<Rightarrow> (pystr \<Rightarrow> error option) \<Rightarrow> error + structure_result" where
  "structure_textbook page_files tm output_dir =
     (case process_pages tm (new_chunk_creator (subject tm)) [] page_files of
        Inl e \<Rightarrow> Inl e
      | Inr all_chunks \<Rightarrow>
          (let name = subject tm @ asc ''_'' @ str_int (grade tm) @ asc ''_chunks.json'';
               doc = \<lparr>doc_metadata = tm, doc_chunks = all_chunks,
                      doc_total_chunks = int (length all_chunks)\<rparr>
           in case output_dir name of
                Some e \<Rightarrow> Inl e
              | None \<Rightarrow>
                  (case json_dump (document_dict doc) of
                     Inl e \<Rightarrow> Inl e
                   | Inr j \<Rightarrow>
                       Inr \<lparr>output_file = name, written = doc, file_content = j,
                            returned = all_chunks\<rparr>)))"

section \<open>The answer assembler (4_rag_query.py)\<close>

subsection \<open>Data and collaborators\<close>

text \<open>
  The metadata of an indexed chunk is a dictionary from field names to strings and
  integers. A retrieved chunk is the dictionary with the keys \<open>id\<close>, \<open>document\<close>,
  \<open>metadata\<close> and \<open>distance\<close> that \<open>search_relevant_chunks\<close> builds. A distance
  is a Python float; it is modelled as a real number, and \<open>1 - distance\<close> as the
  subtraction of real numbers (the rounding of floating point is not modelled).
\<close>

datatype meta_value = MStr pystr | MInt int

type_synonym index_metadata = "(string \<times> meta_value) list"

record retrieved_chunk =
  r_id :: pystr
  r_document :: pystr
  r_metadata :: index_metadata
  r_distance :: real

text \<open>What \<open>collection.query\<close> returns: under each key one list for each query
  embedding.\<close>

record query_result =
  ids :: "pystr list list"
  documents :: "pystr list list"
  metadatas :: "index_metadata list list"
  distances :: "real list list"

text \<open>
  The collaborators of \<open>RAGSystem\<close>. \<open>get_collection\<close> and \<open>query\<close> return
  \<open>Inl\<close> when the call raises. \<open>generate\<close> is \<open>ollama.generate\<close>: \<open>Inl t\<close> when it
  raises an \<open>Exception\<close> \<open>e\<close> with \<open>str(e) = t\<close>, and otherwise the value under the key
  \<open>response\<close> of the dictionary it returns, \<open>None\<close> when that key is absent.
\<close>

record collection =
  query_index :: "real list list \<Rightarrow> int \<Rightarrow> error + query_result"

record rag_system =
  encode :: "pystr list \<Rightarrow> real list list"
  get_collection :: "pystr \<Rightarrow> error + collection"
  ollama_model :: pystr
  generate :: "pystr \<Rightarrow> pystr \<Rightarrow> pystr + pystr option"

subsection \<open>\<open>search_relevant_chunks\<close>\<close>

text \<open>\<open>Config.CHROMA_COLLECTION_PREFIX\<close> and the name of the collection of a subject
  and a grade.\<close>

definition chroma_collection_prefix :: pystr where
  "chroma_collection_prefix = asc ''textbook''"

definition collection_name :: "pystr \<Rightarrow> int \<Rightarrow> pystr" where
  "collection_name subj gr = chroma_collection_prefix @ asc ''_'' @ subj @ asc ''_'' @ str_int gr"

text \<open>The message of the \<open>ValueError\<close>: in Russian, "Collection '<name>' not found.
  Run 3_create_embeddings.py".\<close>

definition not_found_message :: "pystr \<Rightarrow> pystr" where
  "not_found_message name =
     [1050, 1086, 1083, 1083, 1077, 1082, 1094, 1080, 1103, 32, 39] @ name @
     [39, 32, 1085, 1077, 32, 1085, 1072, 1081, 1076, 1077, 1085, 1072, 46, 32, 1047,
      1072, 1087, 1091, 1089, 1090, 1080, 1090, 1077, 32] @ asc ''3_create_embeddings.py''"

text \<open>\<open>xss[0][i]\<close>, with the \<open>IndexError\<close> of either index.\<close>

definition item0 :: "'a list list \<Rightarrow> nat \<Rightarrow> error + 'a" where
  "item0 xss i =
     (case xss of
        [] \<Rightarrow> Inl IndexError
      | xs # _ \<Rightarrow> if i < length xs then Inr (xs ! i) else Inl IndexError)"

definition result_row :: "query_result \<Rightarrow> nat \<Rightarrow> error + retrieved_chunk" where
  "result_row results i =
     (case item0 (ids results) i of
        Inl e \<Rightarrow> Inl e
      | Inr a \<Rightarrow>
          (case item0 (documents results) i of
             Inl e \<Rightarrow> Inl e
           | Inr b \<Rightarrow>
               (case item0 (metadatas results) i of
                  Inl e \<Rightarrow> Inl e
                | Inr c \<Rightarrow>
                    (case item0 (distances results) i of
                       Inl e \<Rightarrow> Inl e
                     | Inr d \<Rightarrow>
                         Inr \<lparr>r_id = a, r_document = b, r_metadata = c, r_distance = d\<rparr>))))"

text \<open>The loop \<open>for i in range(...)\<close> that appends one row for each index; it stops at
  the first exception.\<close>

fun result_rows :: "query_result \<Rightarrow> nat list \<Rightarrow> error + retrieved_chunk list" where
  "result_rows results [] = Inr []"
| "result_rows results (i # is) =
     (case result_row results i of
        Inl e \<Rightarrow> Inl e
      | Inr c \<Rightarrow>
          (case result_rows results is of
             Inl e \<Rightarrow> Inl e
           | Inr cs \<Rightarrow> Inr (c # cs)))"

definition search_relevant_chunks :: "rag_system \<Rightarrow> pystr \<Rightarrow> pystr \<Rightarrow> int \<Rightarrow> int \<Rightarrow> error + retrieved_chunk list" where
  "search_relevant_chunks self query subj gr n_results =
     (case get_collection self (collection_name subj gr) of
        Inl _ \<Rightarrow> Inl (ValueError (not_found_message (collection_name subj gr)))
      | Inr coll \<Rightarrow>
          (case encode self [query] of
             [] \<Rightarrow> Inl IndexError
           | query_embedding # _ \<Rightarrow>
               (case query_index coll [query_embedding] n_results of
                  Inl e \<Rightarrow> Inl e
                | Inr results \<Rightarrow>
                    (case ids results of
                       [] \<Rightarrow> Inl IndexError
                     | ids0 # _ \<Rightarrow> result_rows results [0..<length ids0]))))"

subsection \<open>\<open>create_prompt\<close>\<close>

text \<open>\<open>metadata.get(key, default)\<close>, and the text an f-string gives a value.\<close>

definition meta_get :: "index_metadata \<Rightarrow> string \<Rightarrow> meta_value \<Rightarrow> meta_value" where
  "meta_get md k dflt = (case map_of md k of None \<Rightarrow> dflt | Some v \<Rightarrow> v)"

fun format_value :: "meta_value \<Rightarrow> pystr" where
  "format_value (MStr s) = s"
| "format_value (MInt i) = str_int i"

text \<open>The default of the title: "unknown" in Russian.\<close>

definition unknown_title :: pystr where
  "unknown_title = [1053, 1077, 1080, 1079, 1074, 1077, 1089, 1090, 1085, 1086]"

text \<open>\<open>sep.join(parts)\<close>.\<close>

fun join :: "pystr \<Rightarrow> pystr list \<Rightarrow> pystr" where
  "join sep [] = []"
| "join sep [p] = p"
| "join sep (p # q # ps) = p @ sep @ join sep (q # ps)"

text \<open>The block of one source: "[Source idx]", the textbook, the page and the
  content, each on a line of its own.\<close>

definition context_part :: "nat \<Rightarrow> retrieved_chunk \<Rightarrow> pystr" where
  "context_part idx c =
     [91, 1048, 1089, 1090, 1086, 1095, 1085, 1080, 1082, 32] @ str_int (int idx) @
     [93, 10, 1059, 1095, 1077, 1073, 1085, 1080, 1082, 58, 32] @
     format_value (meta_get (r_metadata c) ''textbook_title'' (MStr unknown_title)) @
     [10, 1057, 1090, 1088, 1072, 1085, 1080, 1094, 1072, 58, 32] @
     format_value (meta_get (r_metadata c) ''page'' (MStr (asc ''?''))) @
     [10, 1057, 1086, 1076, 1077, 1088, 1078, 1072, 1085, 1080, 1077, 58, 10] @
     r_document c @ [10]"

text \<open>The prompt: the role of the tutor with the grade and the subject, the context,
  the question of the student, the six rules of the answer, and the cue of the answer.\<close>

definition create_prompt :: "pystr \<Rightarrow> retrieved_chunk list \<Rightarrow> int \<Rightarrow> pystr \<Rightarrow> pystr" where
  "create_prompt query chunks gr subj =
     [1058, 1099, 32, 8212, 32, 1088, 1077, 1087, 1077, 1090, 1080, 1090, 1086, 1088,
      32, 1076, 1083, 1103, 32, 1096, 1082, 1086, 1083, 1100, 1085, 1080, 1082, 1072,
      32] @ str_int gr @
     [32, 1082, 1083, 1072, 1089, 1089, 1072, 32, 1087, 1086, 32, 1087, 1088, 1077,
      1076, 1084, 1077, 1090, 1091, 32, 34] @ subj @
     [34, 46, 10, 10, 1050, 1054, 1053, 1058, 1045, 1050, 1057, 1058, 32, 1048, 1047,
      32, 1059, 1063, 1045, 1041, 1053, 1048, 1050, 1040, 58, 10] @
     join [10] (map (\<lambda>(idx, c). context_part idx c) (enumerate 1 chunks)) @
     [10, 10, 1042, 1054, 1055, 1056, 1054, 1057, 32, 1059, 1063, 1045, 1053, 1048,
      1050, 1040, 58, 10] @ query @
     [10, 10, 1055, 1056, 1040, 1042, 1048, 1051, 1040, 32, 1054, 1058, 1042, 1045,
      1058, 1040, 58, 10, 49, 46, 32, 1048, 1089, 1087, 1086, 1083, 1100, 1079, 1091,
      1081, 32, 1058, 1054, 1051, 1068, 1050, 1054, 32, 1080, 1085, 1092, 1086, 1088,
      1084, 1072, 1094, 1080, 1102, 32, 1080, 1079, 32, 1087, 1088, 1077, 1076, 1086,
      1089, 1090, 1072, 1074, 1083, 1077, 1085, 1085, 1086, 1075, 1086, 32, 1082, 1086,
      1085, 1090, 1077, 1082, 1089, 1090, 1072, 10, 50, 46, 32, 1054, 1073, 1098, 1103,
      1089, 1085, 1103, 1081, 32, 1085, 1072, 32, 1091, 1088, 1086, 1074, 1085, 1077,
      32] @ str_int gr @
     [32, 1082, 1083, 1072, 1089, 1089, 1072, 10, 51, 46, 32, 1055, 1088, 1080, 1074,
      1086, 1076, 1080, 32, 1087, 1088, 1080, 1084, 1077, 1088, 1099, 32, 1080, 1079,
      32, 1091, 1095, 1077, 1073, 1085, 1080, 1082, 1072, 44, 32, 1077, 1089, 1083,
      1080, 32, 1077, 1089, 1090, 1100, 10, 52, 46, 32, 1045, 1089, 1083, 1080, 32,
      1074, 32, 1082, 1086, 1085, 1090, 1077, 1082, 1089, 1090, 1077, 32, 1085, 1077,
      1090, 32, 1086, 1090, 1074, 1077, 1090, 1072, 44, 32, 1095, 1077, 1089, 1090,
      1085, 1086, 32, 1089, 1082, 1072, 1078, 1080, 32, 1086, 1073, 32, 1101, 1090,
      1086, 1084, 10, 53, 46, 32, 1059, 1082, 1072, 1078, 1080, 32, 1080, 1089, 1090,
      1086, 1095, 1085, 1080, 1082, 32, 40, 1089, 1090, 1088, 1072, 1085, 1080, 1094,
      1091, 32, 1091, 1095, 1077, 1073, 1085, 1080, 1082, 1072, 41, 10, 54, 46, 32,
      1054, 1073, 1098, 1103, 1089, 1085, 1103, 1081, 32, 1087, 1086, 1096, 1072, 1075,
      1086, 1074, 1086, 10, 10, 1054, 1058, 1042, 1045, 1058, 58]"

subsection \<open>\<open>answer_question\<close>\<close>

record source =
  textbook :: meta_value
  src_page :: meta_value
  relevance :: real

record result_metadata =
  res_subject :: pystr
  res_grade :: int
  res_model :: pystr
  chunks_used :: int

record answer_result =
  res_query :: pystr
  answer :: pystr
  sources :: "source list"
  res_metadata :: result_metadata

text \<open>The placeholder of a failed generation: "Error while generating the answer: "
  in Russian, followed by \<open>str(e)\<close>.\<close>

definition generation_error_prefix :: pystr where
  "generation_error_prefix =
     [1054, 1096, 1080, 1073, 1082, 1072, 32, 1087, 1088, 1080, 32, 1075, 1077, 1085,
      1077, 1088, 1072, 1094, 1080, 1080, 32, 1086, 1090, 1074, 1077, 1090, 1072, 58,
      32]"

text \<open>
  The \<open>try\<close> block holds the call of the runtime and the lookup
  \<open>response['response']\<close>; \<open>except Exception\<close> handles the exception of either. The
  text of the \<open>KeyError\<close> of a missing key \<open>response\<close> is the key in single quotes.
\<close>

definition generated_answer :: "rag_system \<Rightarrow> pystr \<Rightarrow> pystr" where
  "generated_answer self prompt =
     (case generate self (ollama_model self) prompt of
        Inl t \<Rightarrow> generation_error_prefix @ t
      | Inr None \<Rightarrow> generation_error_prefix @ [39] @ asc ''response'' @ [39]
      | Inr (Some response) \<Rightarrow> response)"

definition source_of :: "retrieved_chunk \<Rightarrow> source" where
  "source_of c =
     \<lparr>textbook = meta_get (r_metadata c) ''textbook_title'' (MStr unknown_title),
      src_page = meta_get (r_metadata c) ''page'' (MStr (asc ''?'')),
      relevance = 1 - r_distance c\<rparr>"

text \<open>With \<open>verbose\<close> the function prints its progress; what it prints is not part of
  the result, and the parameter has no other effect.\<close>

definition answer_question :: "rag_system \<Rightarrow> pystr \<Rightarrow> pystr \<Rightarrow> int \<Rightarrow> int \<Rightarrow> bool \<Rightarrow> error + answer_result" where
  "answer_question self query subj gr n_results verbose =
     (case search_relevant_chunks self query subj gr n_results of
        Inl e \<Rightarrow> Inl e
      | Inr chunks \<Rightarrow>
          Inr \<lparr>res_query = query,
               answer = generated_answer self (create_prompt query chunks gr subj),
               sources = map source_of chunks,
               res_metadata =
                 \<lparr>res_subject = subj, res_grade = gr, res_model = ollama_model self,
                  chunks_used = int (length chunks)\<rparr>\<rparr>)"

section \<open>Reading a chunk-collection document (3_create_embeddings.py)\<close>

text \<open>
  \<open>process_chunks_file\<close> loads the file and takes \<open>data['chunks']\<close> and
  \<open>data['metadata']\<close>; the model is this first part of the function (the embedding
  and the vector index that follow are external). Subscripting a value that is not a
  dictionary with a string is a \<open>TypeError\<close>, and a missing key a \<open>KeyError\<close>.
\<close>

definition subscript :: "pyval \<Rightarrow> string \<Rightarrow> error + pyval" where
  "subscript v k =
     (case v of
        PDict kvs \<Rightarrow> (case map_of kvs (asc k) of None \<Rightarrow> Inl (KeyError k) | Some x \<Rightarrow> Inr x)
      | _ \<Rightarrow> Inl TypeError)"

record loaded_chunks =
  file_chunks :: pyval
  file_metadata :: pyval

definition process_chunks_file :: "json \<Rightarrow> error + loaded_chunks" where
  "process_chunks_file chunks_file =
     (case json_load chunks_file of
        Inl e \<Rightarrow> Inl e
      | Inr data \<Rightarrow>
          (case subscript data ''chunks'' of
             Inl e \<Rightarrow> Inl e
           | Inr chunks \<Rightarrow>
               (case subscript data ''metadata'' of
                  Inl e \<Rightarrow> Inl e
                | Inr md \<Rightarrow> Inr \<lparr>file_chunks = chunks, file_metadata = md\<rparr>)))"

section \<open>Example inputs\<close>

text \<open>
  A vector index with one collection, for mathematics in grade 5, that answers every
  query with the same two chunks, and a generation runtime that is down: every call of
  it raises an exception with the text \<open>connection refused\<close>.
\<close>

definition demo_results :: query_result where
  "demo_results =
     \<lparr>ids = [[asc ''id_1'', asc ''id_2'']],
      documents = [[asc ''first document'', asc ''second document'']],
      metadatas = [[[(''textbook_title'', MStr (asc ''Algebra'')), (''page'', MInt 12)], []]],
      distances = [[1 / 4, 1 / 2]]\<rparr>"

definition demo_chunks :: "retrieved_chunk list" where
  "demo_chunks =
     [\<lparr>r_id = asc ''id_1'', r_document = asc ''first document'',
       r_metadata = [(''textbook_title'', MStr (asc ''Algebra'')), (''page'', MInt 12)],
       r_distance = 1 / 4\<rparr>,
      \<lparr>r_id = asc ''id_2'', r_document = asc ''second document'',
       r_metadata = [], r_distance = 1 / 2\<rparr>]"

definition demo_system :: rag_system where
  "demo_system =
     \<lparr>encode = map (\<lambda>_. [0]),
      get_collection =
        (\<lambda>name. if name = collection_name subject_math 5
                then Inr \<lparr>query_index = (\<lambda>_ _. Inr demo_results)\<rparr>
                else Inl (ValueError (asc ''Collection does not exist''))),
      ollama_model = asc ''qwen3:8b'',
      generate = (\<lambda>_ _. Inl (asc ''connection refused''))\<rparr>"

text \<open>
  A vector index that cannot be reached: every lookup of a collection raises an
  exception with the text \<open>connection refused\<close>, whether the collection was indexed
  or not.
\<close>

definition unreachable_system :: rag_system where
  "unreachable_system =
     demo_system\<lparr>get_collection := (\<lambda>name. Inl (RuntimeFault (asc ''connection refused'')))\<rparr>"

text \<open>
  A mathematics workbook for grade 5 with two pages, \<open>page_002.json\<close> with two tasks
  and \<open>page_003.json\<close> with one, and a physics textbook (the subject \<open>fizika\<close> in
  Cyrillic), which is neither of the two subjects the segmenter knows.
\<close>

definition demo_textbook :: textbook_metadata where
  "demo_textbook =
     \<lparr>title = asc ''Workbook'', author = asc ''Author'', year = 2023, grade = 5,
      subject = subject_math, isbn = None, part = Some 1\<rparr>"

definition demo_pages :: "page_file list" where
  "demo_pages =
     [\<lparr>stem = asc ''page_002'', page_data_text = Some (asc ''1. a = b'' @ [10] @ asc ''2. c'')\<rparr>,
      \<lparr>stem = asc ''page_003'', page_data_text = Some (asc ''1. d'')\<rparr>]"

definition physics_textbook :: textbook_metadata where
  "physics_textbook =
     \<lparr>title = asc ''Physics'', author = asc ''Author'', year = 2023, grade = 7,
      subject = [1092, 1080, 1079, 1080, 1082, 1072], isbn = None, part = None\<rparr>"

text \<open>
  Two variants of the physics textbook: one whose subject holds a slash, and one whose
  title is a lone surrogate (U+D800), as \<open>json.loads\<close> reads it from an escape.
\<close>

definition slash_textbook :: textbook_metadata where
  "slash_textbook = physics_textbook\<lparr>subject := asc ''a/b''\<rparr>"

definition surrogate_textbook :: textbook_metadata where
  "surrogate_textbook = physics_textbook\<lparr>title := [55296]\<rparr>"

text \<open>
  A page of the mathematics workbook whose only task has a lone surrogate as its body,
  and the chunk that the segmenter makes of it.
\<close>

definition surrogate_pages :: "page_file list" where
  "surrogate_pages = [\<lparr>stem = asc ''page_001'', page_data_text = Some (asc ''1. '' @ [55296])\<rparr>]"

definition surrogate_chunk :: chunk where
  "surrogate_chunk =
     \<lparr>chunk_id = subject_math @ asc ''_5_ch0_p1_1'',
      metadata = empty_metadata
        \<lparr>md_page := Some 1, md_task_number := Some 1, md_content_type := Some (asc ''task''),
         md_textbook_title := Some (asc ''Workbook''), md_grade := Some 5,
         md_subject := Some subject_math, md_author := Some (asc ''Author'')\<rparr>,
      content = \<lparr>c_text = [55296], c_formulas = Some []\<rparr>\<rparr>"

text \<open>The document of a collection with one chunk, the task of \<open>page_003.json\<close>.\<close>

definition demo_document :: chunk_document where
  "demo_document =
     \<lparr>doc_metadata = demo_textbook,
      doc_chunks =
        [\<lparr>chunk_id = subject_math @ asc ''_5_ch0_p3_1'',
          metadata = empty_metadata
            \<lparr>md_page := Some 3, md_task_number := Some 1,
             md_content_type := Some (asc ''task''),
             md_textbook_title := Some (asc ''Workbook''), md_grade := Some 5,
             md_subject := Some subject_math, md_author := Some (asc ''Author'')\<rparr>,
          content = \<lparr>c_text = asc ''d'', c_formulas = Some []\<rparr>\<rparr>],
      doc_total_chunks = 1\<rparr>"

text \<open>
  An output directory for the examples: \<open>open\<close> refuses a name with a NUL character
  with a \<open>ValueError\<close>; the directory has no subdirectory and nothing outside it can
  be written, so a name with a slash raises an \<open>OSError\<close> (\<open>FileNotFoundError\<close> or
  \<open>PermissionError\<close>); every other name is opened.
\<close>

definition plain_directory :: "pystr \<Rightarrow> error option" where
  "plain_directory name =
     (if 0 \<in> set name then Some (ValueError (asc ''embedded null byte''))
      else if 47 \<in> set name then Some (OSError name)
      else None)"

text \<open>
  The examples of the specification. For the mathematics segmenter, the two tasks
  "1. Find the sum 2+2." and "2. Find the difference 5-3." (in Russian), once on one
  line, separated by a space, and once on two lines. For the history segmenter, two
  paragraphs separated by a blank line: "In 1242 an event took place." and "Ivan the
  Terrible ruled for a long time.", with the date \<open>1242 g.\<close> and the name of two
  capitalised words.
\<close>

definition task_body_1 :: pystr where
  "task_body_1 =
     [1053, 1072, 1081, 1076, 1080, 1090, 1077, 32, 1089, 1091, 1084, 1084, 1091, 32, 50,
      43, 50, 46]"

definition task_body_2 :: pystr where
  "task_body_2 =
     [1053, 1072, 1081, 1076, 1080, 1090, 1077, 32, 1088, 1072, 1079, 1085, 1086, 1089,
      1090, 1100, 32, 53, 45, 51, 46]"

definition tasks_on_one_line :: pystr where
  "tasks_on_one_line = asc ''1. '' @ task_body_1 @ asc '' 2. '' @ task_body_2"

definition tasks_on_two_lines :: pystr where
  "tasks_on_two_lines = asc ''1. '' @ task_body_1 @ [10] @ asc ''2. '' @ task_body_2"

definition date_1242 :: pystr where
  "date_1242 = [49, 50, 52, 50, 32, 1075, 46]"

definition ivan_grozny :: pystr where
  "ivan_grozny = [1048, 1074, 1072, 1085, 32, 1043, 1088, 1086, 1079, 1085, 1099, 1081]"

definition history_paragraph_1 :: pystr where
  "history_paragraph_1 =
     [1042, 32, 49, 50, 52, 50, 32, 1075, 46, 32, 1087, 1088, 1086, 1080, 1079, 1086,
      1096, 1083, 1086, 32, 1089, 1086, 1073, 1099, 1090, 1080, 1077, 46]"

definition history_paragraph_2 :: pystr where
  "history_paragraph_2 =
     [1048, 1074, 1072, 1085, 32, 1043, 1088, 1086, 1079, 1085, 1099, 1081, 32, 1087,
      1088, 1072, 1074, 1080, 1083, 32, 1076, 1086, 1083, 1075, 1086, 46]"

definition history_example :: pystr where
  "history_example = history_paragraph_1 @ [10, 10] @ history_paragraph_2"

section \<open>Notions used by the claims\<close>

subsection \<open>Numbered lists\<close>

text \<open>
  A numbered list as the task pattern reads it. An item is a number, a dot, white space,
  a body, and white space after the body; each item but the first starts directly after
  a newline. In a well-formed item
  \<^item> the number is a non-empty string of at most 4300 decimal digits (\<open>int\<close> raises
    for a longer one),
  \<^item> the white space after the dot is not empty,
  \<^item> the body is not empty and has no white space at either end (the white space
    around it is that of the item), and
  \<^item> the body and the white space after it hold no newline that is followed by digits
    and a dot (which would start another item).
\<close>

record list_item =
  item_number :: pystr
  item_space :: pystr
  item_body :: pystr
  item_trail :: pystr

definition item_text :: "list_item \<Rightarrow> pystr" where
  "item_text it = item_number it @ [46] @ item_space it @ item_body it @ item_trail it"

fun render_items :: "list_item list \<Rightarrow> pystr" where
  "render_items [] = []"
| "render_items [it] = item_text it"
| "render_items (it # it' # its) = item_text it @ [10] @ render_items (it' # its)"

fun no_item_ahead :: "pystr \<Rightarrow> bool" where
  "no_item_ahead [] = True"
| "no_item_ahead (c # cs) = (\<not> item_ahead (c # cs) \<and> no_item_ahead cs)"

definition well_formed_item :: "list_item \<Rightarrow> bool" where
  "well_formed_item it =
     (item_number it \<noteq> [] \<and> list_all is_digit (item_number it) \<and>
      length (item_number it) \<le> int_max_str_digits \<and>
      item_space it \<noteq> [] \<and> list_all is_space (item_space it) \<and>
      item_body it \<noteq> [] \<and> \<not> is_space (hd (item_body it)) \<and>
      \<not> is_space (last (item_body it)) \<and>
      list_all is_space (item_trail it) \<and>
      no_item_ahead (item_body it @ item_trail it))"

text \<open>
  The text before the list starts no item when the pattern matches at none of its
  positions: nowhere in it are digits followed by a dot and white space.
\<close>

definition task_start :: "pystr \<Rightarrow> bool" where
  "task_start s = (task_match None s \<noteq> None)"

fun no_task_start :: "pystr \<Rightarrow> bool" where
  "no_task_start [] = True"
| "no_task_start (c # cs) = (\<not> task_start (c # cs) \<and> no_task_start cs)"

text \<open>The chunk of one item on a page: its text is the body, and its formulas are
  those of the body and the white space after it.\<close>

definition item_chunk :: "int \<Rightarrow> list_item \<Rightarrow> chunk" where
  "item_chunk page_num it =
     \<lparr>chunk_id = asc ''math_temp_'' @ str_int page_num @ asc ''_'' @ item_number it,
      metadata = empty_metadata
        \<lparr>md_page := Some page_num, md_task_number := Some (int (digits_value (item_number it))),
         md_content_type := Some (asc ''task'')\<rparr>,
      content = \<lparr>c_text = item_body it,
                 c_formulas = Some (extract_formulas (item_body it @ item_trail it))\<rparr>\<rparr>"

subsection \<open>Paragraphs\<close>

text \<open>A text holds a paragraph boundary where two newline characters follow one
  another.\<close>

fun has_blank :: "pystr \<Rightarrow> bool" where
  "has_blank (a # b # cs) = (a = 10 \<and> b = 10 \<or> has_blank (b # cs))"
| "has_blank cs = False"

subsection \<open>Page files that can be read\<close>

text \<open>A page file is readable when its stem gives a page number and its JSON object
  has the key \<open>text\<close>.\<close>

definition readable_page :: "page_file \<Rightarrow> bool" where
  "readable_page pf =
     (case page_number (stem pf) of
        Inl _ \<Rightarrow> False
      | Inr _ \<Rightarrow> page_data_text pf \<noteq> None)"

subsection \<open>Final identifiers\<close>

text \<open>The identifier that \<open>create_chunk_id\<close> formats from a subject, a grade, a
  chapter, a page and a value of the counter.\<close>

definition final_id :: "pystr \<Rightarrow> int \<Rightarrow> int \<Rightarrow> int \<Rightarrow> int \<Rightarrow> pystr" where
  "final_id subj gr ch p k =
     subj @ asc ''_'' @ str_int gr @ asc ''_ch'' @ str_int ch @ asc ''_p'' @ str_int p @
     asc ''_'' @ str_int k"

text \<open>
  \<open>numbered subj gr k chunks\<close>: the chunks carry the identifiers of the counter values
  \<open>k + 1\<close>, \<open>k + 2\<close>, ... in order, each formatted with the page of its chunk and
  chapter 0, the key \<open>chapter\<close> being absent.
\<close>

fun numbered :: "pystr \<Rightarrow> int \<Rightarrow> nat \<Rightarrow> chunk list \<Rightarrow> bool" where
  "numbered subj gr k [] = True"
| "numbered subj gr k (c # cs) =
     ((case md_page (metadata c) of
         None \<Rightarrow> False
       | Some p \<Rightarrow> md_chapter (metadata c) = None \<and> md_grade (metadata c) = Some gr \<and>
           chunk_id c = final_id subj gr 0 p (int (Suc k))) \<and>
      numbered subj gr (Suc k) cs)"

subsection \<open>Example lists\<close>

text \<open>
  A number of 4301 digits, and three lists: the two tasks of the example as items; a
  list after a heading that ends in a carriage return and a newline, with two spaces
  after the first dot, a space after the first body and a blank line between the items;
  and an item with the number of 4301 digits.
\<close>

definition long_number :: pystr where
  "long_number = replicate 4301 49"

definition example_items :: "list_item list" where
  "example_items =
     [\<lparr>item_number = asc ''1'', item_space = asc '' '', item_body = task_body_1, item_trail = []\<rparr>,
      \<lparr>item_number = asc ''2'', item_space = asc '' '', item_body = task_body_2, item_trail = []\<rparr>]"

definition spaced_heading :: pystr where
  "spaced_heading = asc ''Tasks'' @ [13, 10]"

definition spaced_items :: "list_item list" where
  "spaced_items =
     [\<lparr>item_number = asc ''1'', item_space = asc ''  '', item_body = asc ''a'',
       item_trail = [32, 10]\<rparr>,
      \<lparr>item_number = asc ''2'', item_space = asc '' '', item_body = asc ''b'', item_trail = []\<rparr>]"

definition spaced_list :: pystr where
  "spaced_list = asc ''Tasks'' @ [13, 10] @ asc ''1.  a '' @ [10, 10] @ asc ''2. b''"

definition long_item_text :: pystr where
  "long_item_text = long_number @ asc ''. a''"

subsection \<open>Example pages of a history textbook\<close>

text \<open>
  Two paragraphs \<open>A\<close> and \<open>B\<close> with a line between them that holds a space; the same
  two with lines that end in a carriage return and a newline; and a page on which
  \<open>A\<close> has a space on either side, a paragraph of a space and a tab follows, and \<open>B\<close>
  comes after three newlines and ends with one.
\<close>

definition space_line_page :: pystr where
  "space_line_page = [65, 10, 32, 10, 66]"

definition crlf_page :: pystr where
  "crlf_page = [65, 13, 10, 13, 10, 66]"

definition padded_page :: pystr where
  "padded_page = [32, 65, 32, 10, 10, 32, 9, 10, 10, 10, 66, 10]"

section \<open>Facts about the character classes\<close>

lemma is_space_iff:
  "is_space c \<longleftrightarrow>
     (9 \<le> c \<and> c \<le> 13) \<or> (28 \<le> c \<and> c \<le> 32) \<or> c = 133 \<or> c = 160 \<or> c = 5760 \<or>
     (8192 \<le> c \<and> c \<le> 8202) \<or> c = 8232 \<or> c = 8233 \<or> c = 8239 \<or> c = 8287 \<or> c = 12288"
  unfolding is_space_def space_ranges_def by (simp; arith)

lemma is_digit_low: "c < 1632 \<Longrightarrow> is_digit c \<longleftrightarrow> 48 \<le> c \<and> c \<le> 57"
  unfolding is_digit_def digit_ranges_def by simp

lemma digit_value_low: "c < 1632 \<Longrightarrow> digit_value c = (if 48 \<le> c \<and> c \<le> 57 then c - 48 else 0)"
  unfolding digit_value_def digit_ranges_def by simp

lemma is_word_low:
  "c < 170 \<Longrightarrow> is_word c \<longleftrightarrow>
     (48 \<le> c \<and> c \<le> 57) \<or> (65 \<le> c \<and> c \<le> 90) \<or> c = 95 \<or> (97 \<le> c \<and> c \<le> 122)"
  unfolding is_word_def word_ranges_def by (simp; arith)

lemma is_word_cyrillic: "1015 \<le> c \<Longrightarrow> c \<le> 1153 \<Longrightarrow> is_word c"
  unfolding is_word_def word_ranges_def by simp

lemma is_formula_char_iff:
  "is_formula_char c \<longleftrightarrow>
     (9 \<le> c \<and> c \<le> 13) \<or> (28 \<le> c \<and> c \<le> 32) \<or> (40 \<le> c \<and> c \<le> 43) \<or> c = 45 \<or>
     (47 \<le> c \<and> c \<le> 57) \<or> (65 \<le> c \<and> c \<le> 90) \<or> (97 \<le> c \<and> c \<le> 122) \<or> c = 133 \<or>
     c = 160 \<or> c = 304 \<or> c = 305 \<or> c = 383 \<or> (1040 \<le> c \<and> c \<le> 1103) \<or> c = 5760 \<or>
     (7296 \<le> c \<and> c \<le> 7302) \<or> (8192 \<le> c \<and> c \<le> 8202) \<or> c = 8232 \<or> c = 8233 \<or>
     c = 8239 \<or> c = 8287 \<or> c = 8490 \<or> c = 12288"
  unfolding is_formula_char_def formula_ranges_def by (simp; arith)

lemma digit_not_space: "is_digit c \<Longrightarrow> \<not> is_space c"
proof
  assume d: "is_digit c" and s: "is_space c"
  from s consider "c < 1632" | "c = 5760" | "8192 \<le> c \<and> c \<le> 8202" | "c = 8232" | "c = 8233"
    | "c = 8239" | "c = 8287" | "c = 12288"
    unfolding is_space_iff by linarith
  then show False
  proof cases
    case 1
    with d have "48 \<le> c \<and> c \<le> 57" by (simp add: is_digit_low)
    with s show False by (auto simp: is_space_iff)
  next
    case 3
    with d show False unfolding is_digit_def digit_ranges_def by simp
  qed (use d in \<open>simp_all add: is_digit_def digit_ranges_def\<close>)
qed

lemma not_digit_eval [simp]:
  "\<not> is_digit 10" "\<not> is_digit 32" "\<not> is_digit 43" "\<not> is_digit 45" "\<not> is_digit 46" "\<not> is_digit 95"
  by (simp_all add: is_digit_low)

lemma is_space_eval [simp]: "is_space 10" "is_space 32"
  by (simp_all add: is_space_iff)

lemma digits_then:
  assumes "list_all is_digit num" and "\<not> is_digit c"
  shows "takeWhile is_digit (num @ c # r) = num" and "dropWhile is_digit (num @ c # r) = c # r"
  using assms by (simp_all add: list_all_iff takeWhile_append2 dropWhile_append2)

lemma dropWhile_hd: "xs \<noteq> [] \<Longrightarrow> \<not> P (hd xs) \<Longrightarrow> dropWhile P xs = xs"
  by (cases xs) simp_all

lemma takeWhile_hd: "xs \<noteq> [] \<Longrightarrow> \<not> P (hd xs) \<Longrightarrow> takeWhile P (xs @ ys) = []"
  by (cases xs) simp_all

lemma trim_end: "xs \<noteq> [] \<Longrightarrow> \<not> P (last xs) \<Longrightarrow> rev (dropWhile P (rev xs)) = xs"
  by (simp add: dropWhile_hd hd_rev)

section \<open>Facts about \<open>split\<close>, \<open>int\<close> and the matchers\<close>

lemma split_absent: "c \<notin> set s \<Longrightarrow> split [c] s = [s]"
proof (induction s)
  case Nil
  show ?case by (simp add: split.simps)
next
  case (Cons x xs)
  then have "split [c] xs = [xs]" and "x \<noteq> c" by simp_all
  then show ?case by (subst split.simps) simp
qed

text \<open>\<open>int\<close> accepts a non-empty string of at most 4300 decimal digits, and
  raises for a longer one.\<close>

lemma digits_trim:
  assumes "num \<noteq> []" and "list_all is_digit num"
  shows "rev (dropWhile is_int_space (rev (dropWhile is_int_space num))) = num"
    and "hd num \<noteq> 43" and "hd num \<noteq> 45" and "split [95] num = [num]"
proof -
  from assms have h: "is_digit (hd num)" and l: "is_digit (last num)"
    by (simp_all add: list_all_iff)
  then have "\<not> is_int_space (hd num)" "\<not> is_int_space (last num)"
    by (simp_all add: is_int_space_def digit_not_space)
  with assms(1) show "rev (dropWhile is_int_space (rev (dropWhile is_int_space num))) = num"
    by (simp add: dropWhile_hd trim_end)
  from h show "hd num \<noteq> 43" "hd num \<noteq> 45" by auto
  have "95 \<notin> set num" using assms(2) by (auto simp: list_all_iff)
  then show "split [95] num = [num]" by (rule split_absent)
qed

lemma py_int_digits:
  assumes "num \<noteq> []" and "list_all is_digit num" and "length num \<le> int_max_str_digits"
  shows "py_int num = Inr (int (digits_value num))"
  using assms digits_trim [OF assms(1,2)] by (simp add: py_int_def Let_def)

lemma py_int_too_long:
  assumes "list_all is_digit num" and "int_max_str_digits < length num"
  shows "py_int num = Inl (IntValueError num)"
proof -
  from assms(2) have "num \<noteq> []" by auto
  from digits_trim [OF this assms(1)] assms show ?thesis
    by (simp add: py_int_def Let_def)
qed

text \<open>A match of each of the four patterns consumes at least one character.\<close>

lemma lazy_body_length: "lazy_body s = (b, r) \<Longrightarrow> length b + length r = length s"
  by (induction s arbitrary: b r) (auto split: if_splits prod.splits)

lemma task_match_consumes: "task_match prev s = Some (x, r) \<Longrightarrow> length r < length s"
proof -
  assume m: "task_match prev s = Some (x, r)"
  then obtain r2 where tw: "takeWhile is_digit s \<noteq> []" and dw: "dropWhile is_digit s = 46 # r2"
    by (auto simp: task_match_def Let_def split: list.splits if_splits)
  with m obtain b where "lazy_body (dropWhile is_space r2) = (b, r)"
    by (auto simp: task_match_def Let_def split: if_splits prod.splits)
  from lazy_body_length [OF this] have "length r \<le> length (dropWhile is_space r2)" by simp
  also have "\<dots> \<le> length r2" by (rule length_dropWhile_le)
  also have "\<dots> < length (dropWhile is_digit s)" by (simp add: dw)
  also have "\<dots> \<le> length s" by (rule length_dropWhile_le)
  finally show ?thesis .
qed

lemma formula_match_consumes: "formula_match prev s = Some (x, r) \<Longrightarrow> length r < length s"
proof -
  assume m: "formula_match prev s = Some (x, r)"
  then obtain r2 where dw: "dropWhile is_formula_char s = 61 # r2"
    and r: "r = dropWhile is_formula_char r2"
    by (auto simp: formula_match_def Let_def split: list.splits if_splits)
  have "length r \<le> length r2" unfolding r by (rule length_dropWhile_le)
  also have "\<dots> < length (dropWhile is_formula_char s)" by (simp add: dw)
  also have "\<dots> \<le> length s" by (rule length_dropWhile_le)
  finally show ?thesis .
qed

lemma opt_dot_length: "opt_dot s = (d, r) \<Longrightarrow> length r \<le> length s"
  by (auto simp: opt_dot_def split: list.splits if_splits)

lemma date_alt1_consumes: "date_alt1 prev s = Some (x, r) \<Longrightarrow> length r < length s"
proof -
  assume m: "date_alt1 prev s = Some (x, r)"
  then obtain r3 d where dw: "dropWhile is_space (dropWhile is_digit s) = 1075 # r3"
    and od: "opt_dot r3 = (d, r)"
    by (auto simp: date_alt1_def Let_def split: list.splits if_splits prod.splits)
  from opt_dot_length [OF od] have "length r \<le> length r3" .
  also have "\<dots> < length (dropWhile is_space (dropWhile is_digit s))" by (simp add: dw)
  also have "\<dots> \<le> length (dropWhile is_digit s)" by (rule length_dropWhile_le)
  also have "\<dots> \<le> length s" by (rule length_dropWhile_le)
  finally show ?thesis .
qed

lemma date_alt2_consumes: "date_alt2 prev s = Some (x, r) \<Longrightarrow> length r < length s"
proof -
  assume m: "date_alt2 prev s = Some (x, r)"
  then obtain h r2 d where dw: "dropWhile is_digit s = h # r2"
    and od: "opt_dot (drop 2 (dropWhile is_space (dropWhile is_digit r2))) = (d, r)"
    by (auto simp: date_alt2_def Let_def split: list.splits if_splits prod.splits)
  from opt_dot_length [OF od]
  have "length r \<le> length (drop 2 (dropWhile is_space (dropWhile is_digit r2)))" .
  also have "\<dots> \<le> length (dropWhile is_space (dropWhile is_digit r2))" by simp
  also have "\<dots> \<le> length (dropWhile is_digit r2)" by (rule length_dropWhile_le)
  also have "\<dots> \<le> length r2" by (rule length_dropWhile_le)
  also have "\<dots> < length (dropWhile is_digit s)" by (simp add: dw)
  also have "\<dots> \<le> length s" by (rule length_dropWhile_le)
  finally show ?thesis .
qed

lemma date_match_consumes: "date_match prev s = Some (x, r) \<Longrightarrow> length r < length s"
  by (auto simp: date_match_def split: option.splits
      dest: date_alt1_consumes date_alt2_consumes)

lemma name_match_consumes: "name_match prev s = Some (x, r) \<Longrightarrow> length r < length s"
proof -
  assume m: "name_match prev s = Some (x, r)"
  then obtain u1 r0 u2 r3 where s: "s = u1 # r0"
    and dw: "dropWhile is_space (dropWhile is_lower_ru r0) = u2 # r3"
    and r: "r = dropWhile is_lower_ru r3"
    by (auto simp: name_match_def Let_def split: list.splits if_splits)
  have "length r \<le> length r3" unfolding r by (rule length_dropWhile_le)
  also have "\<dots> < length (dropWhile is_space (dropWhile is_lower_ru r0))" by (simp add: dw)
  also have "\<dots> \<le> length (dropWhile is_lower_ru r0)" by (rule length_dropWhile_le)
  also have "\<dots> \<le> length r0" by (rule length_dropWhile_le)
  also have "\<dots> < length s" by (simp add: s)
  finally show ?thesis .
qed

text \<open>The rules that evaluate the classes on the code points of the examples.\<close>

lemmas class_eval = is_space_iff is_digit_low digit_value_low is_word_low is_word_cyrillic
  is_formula_char_iff is_upper_ru_def is_lower_ru_def is_int_space_def

lemmas match_eval = findall.simps task_match_def item_ahead_def at_end_def formula_match_def
  date_match_def date_alt1_def date_alt2_def name_match_def word_boundary_def opt_dot_def

lemmas int_eval = py_int_def int_max_str_digits_def digits_value_def str_int_def str_nat.simps

section \<open>Decimal text\<close>

lemma str_nat_digits: "c \<in> set (str_nat n) \<Longrightarrow> 48 \<le> c \<and> c \<le> 57"
proof (induction n arbitrary: c rule: str_nat.induct)
  case (1 n)
  show ?case
  proof (cases "n < 10")
    case True
    with "1.prems" show ?thesis by (simp add: str_nat.simps)
  next
    case False
    from "1.prems" False have "c \<in> set (str_nat (n div 10)) \<or> c = 48 + n mod 10"
      by (subst (asm) str_nat.simps) auto
    then show ?thesis
    proof
      assume "c \<in> set (str_nat (n div 10))"
      with "1.IH" False show ?thesis by blast
    next
      assume "c = 48 + n mod 10"
      moreover have "n mod 10 < 10" by simp
      ultimately show ?thesis by linarith
    qed
  qed
qed

lemma digits_value_snoc: "digits_value (ds @ [d]) = 10 * digits_value ds + digit_value d"
  by (simp add: digits_value_def)

text \<open>Reading the decimal text of a number gives the number back.\<close>

lemma digits_value_str_nat: "digits_value (str_nat n) = n"
proof (induction n rule: str_nat.induct)
  case (1 n)
  show ?case
  proof (cases "n < 10")
    case True
    then show ?thesis
      by (simp add: str_nat.simps digits_value_def digit_value_low)
  next
    case False
    have m: "n mod 10 < 10" by simp
    then have "digit_value (48 + n mod 10) = n mod 10"
      by (simp add: digit_value_low)
    with False "1.IH" show ?thesis
      by (subst str_nat.simps) (simp add: digits_value_snoc)
  qed
qed

lemma str_nat_inj: "str_nat m = str_nat n \<Longrightarrow> m = n"
  by (metis digits_value_str_nat)

lemma str_int_of_nat: "str_int (int n) = str_nat n"
  by (simp add: str_int_def)

lemma underscore_not_in_str_nat: "95 \<notin> set (str_nat n)"
  using str_nat_digits [of 95 n] by auto

text \<open>The text after the last underscore of a final identifier is the value of the
  counter, so identifiers of different counter values differ.\<close>

lemma final_id_inj:
  assumes "final_id subj gr ch p (int m) = final_id subj' gr' ch' p' (int n)"
  shows "m = n"
proof -
  have tw: "takeWhile (\<lambda>c. c \<noteq> 95) (rev (pre @ [95] @ str_nat k)) = rev (str_nat k)" for pre k
    using underscore_not_in_str_nat [of k]
    by (auto simp: takeWhile_tail)
  have "final_id s g c q (int k) = (s @ asc ''_'' @ str_int g @ asc ''_ch'' @ str_int c @ asc ''_p'' @ str_int q) @ [95] @ str_nat k"
    for s g c q k
    by (simp add: final_id_def str_int_of_nat asc_def)
  with assms tw have "rev (str_nat m) = rev (str_nat n)"
    by metis
  then show ?thesis
    by (simp add: str_nat_inj)
qed

section \<open>The identifiers of a run\<close>

lemma numbered_append:
  "numbered subj gr k (xs @ ys) \<longleftrightarrow> numbered subj gr k xs \<and> numbered subj gr (k + length xs) ys"
  by (induction xs arbitrary: k) (auto split: option.splits)

lemma numbered_nth:
  "numbered subj gr k cs \<Longrightarrow> i < length cs \<Longrightarrow>
     \<exists>p. md_page (metadata (cs ! i)) = Some p \<and> md_chapter (metadata (cs ! i)) = None \<and>
         md_grade (metadata (cs ! i)) = Some gr \<and>
         chunk_id (cs ! i) = final_id subj gr 0 p (int (k + i + 1))"
proof (induction cs arbitrary: k i)
  case Nil
  then show ?case by simp
next
  case (Cons c cs)
  show ?case
  proof (cases i)
    case 0
    with Cons.prems show ?thesis by (auto split: option.splits)
  next
    case (Suc j)
    with Cons.prems have "numbered subj gr (Suc k) cs" and "j < length cs" by simp_all
    from Cons.IH [OF this] Suc show ?thesis by simp
  qed
qed

lemma numbered_distinct: "numbered subj gr k cs \<Longrightarrow> distinct (map chunk_id cs)"
proof (induction cs arbitrary: k)
  case Nil
  then show ?case by simp
next
  case (Cons c cs)
  from Cons.prems have rest: "numbered subj gr (Suc k) cs" by simp
  from Cons.prems obtain p where c: "chunk_id c = final_id subj gr 0 p (int (Suc k))"
    by (auto split: option.splits)
  have "chunk_id c \<notin> set (map chunk_id cs)"
  proof
    assume "chunk_id c \<in> set (map chunk_id cs)"
    then obtain i where i: "i < length cs" and e: "chunk_id (cs ! i) = chunk_id c"
      by (auto simp: in_set_conv_nth)
    from numbered_nth [OF rest i] obtain q
      where "chunk_id (cs ! i) = final_id subj gr 0 q (int (Suc k + i + 1))" by blast
    with e c have "final_id subj gr 0 q (int (Suc k + i + 1)) = final_id subj gr 0 p (int (Suc k))"
      by simp
    then have "Suc k + i + 1 = Suc k" by (rule final_id_inj)
    then show False by simp
  qed
  with Cons.IH [OF rest] show ?case by simp
qed

text \<open>The chunks of both segmenters carry the page and no chapter.\<close>

lemma task_chunks_fresh:
  "task_chunks page_num tasks = Inr cs \<Longrightarrow> c \<in> set cs \<Longrightarrow>
     md_page (metadata c) = Some page_num \<and> md_chapter (metadata c) = None"
proof (induction tasks arbitrary: cs)
  case Nil
  then show ?case by simp
next
  case (Cons t tasks)
  obtain task_num task_text where t: "t = (task_num, task_text)" by (cases t)
  from Cons.prems(1) obtain n cs' where
    cs': "task_chunks page_num tasks = Inr cs'" and
    cs: "cs = \<lparr>chunk_id = asc ''math_temp_'' @ str_int page_num @ asc ''_'' @ task_num,
                 metadata = empty_metadata
                   \<lparr>md_page := Some page_num, md_task_number := Some n,
                    md_content_type := Some (asc ''task'')\<rparr>,
                 content = \<lparr>c_text = strip task_text,
                            c_formulas = Some (extract_formulas task_text)\<rparr>\<rparr> # cs'"
    by (auto simp: t split: sum.splits)
  from Cons.prems(2) cs Cons.IH [OF cs'] show ?case
    by (auto simp: empty_metadata_def)
qed

lemma history_fresh:
  "c \<in> set (extract_history_content page_text page_num) \<Longrightarrow>
     md_page (metadata c) = Some page_num \<and> md_chapter (metadata c) = None"
  by (auto simp: extract_history_content_def history_chunk_def empty_metadata_def)

lemma assign_ids_numbered:
  assumes "assign_ids tm cc cs = Inr (cs', cc')"
    and "\<And>c. c \<in> set cs \<Longrightarrow> md_page (metadata c) \<noteq> None \<and> md_chapter (metadata c) = None"
    and "chunk_id_counter cc = int k"
  shows "numbered (creator_subject cc) (grade tm) k cs' \<and>
         chunk_id_counter cc' = int (k + length cs) \<and>
         creator_subject cc' = creator_subject cc"
  using assms
proof (induction cs arbitrary: cc k cs')
  case Nil
  then show ?case by simp
next
  case (Cons c cs)
  let ?md = "(metadata c)\<lparr>md_textbook_title := Some (title tm), md_grade := Some (grade tm),
                md_subject := Some (subject tm), md_author := Some (author tm)\<rparr>"
  from Cons.prems(2) [of c] obtain p where p: "md_page (metadata c) = Some p"
    and ch: "md_chapter (metadata c) = None" by auto
  let ?cc1 = "cc\<lparr>chunk_id_counter := chunk_id_counter cc + 1\<rparr>"
  let ?cid = "final_id (creator_subject cc) (grade tm) 0 p (int (Suc k))"
  have cid: "create_chunk_id cc ?md = Inr (?cid, ?cc1)"
    using p ch Cons.prems(3) by (simp add: create_chunk_id_def final_id_def Let_def add.commute)
  from Cons.prems(1) cid obtain cs1 where
    rec: "assign_ids tm ?cc1 cs = Inr (cs1, cc')" and
    cs': "cs' = c\<lparr>chunk_id := ?cid, metadata := ?md\<rparr> # cs1"
    by (auto simp: Let_def split: sum.splits)
  have k1: "chunk_id_counter ?cc1 = int (Suc k)" using Cons.prems(3) by simp
  from Cons.IH [OF rec _ k1] Cons.prems(2)
  have "numbered (creator_subject ?cc1) (grade tm) (Suc k) cs1 \<and>
        chunk_id_counter cc' = int (Suc k + length cs) \<and>
        creator_subject cc' = creator_subject ?cc1"
    by simp
  with cs' p ch show ?case by simp
qed

lemma segment_fresh:
  assumes "segment tm page_text page_num = Inr (Some chunks)" and "c \<in> set chunks"
  shows "md_page (metadata c) \<noteq> None \<and> md_chapter (metadata c) = None"
proof (cases "subject tm = subject_math")
  case True
  with assms(1) have "task_chunks page_num (findall task_match None page_text) = Inr chunks"
    by (simp add: segment_def extract_math_tasks_def split: sum.splits)
  from task_chunks_fresh [OF this assms(2)] show ?thesis by simp
next
  case False
  with assms(1) have "chunks = extract_history_content page_text page_num"
    by (simp add: segment_def split: if_splits)
  with history_fresh [of c page_text page_num] assms(2) show ?thesis by simp
qed

lemma assign_ids_length: "assign_ids tm cc cs = Inr (cs', cc') \<Longrightarrow> length cs' = length cs"
  by (induction cs arbitrary: cc cs') (auto simp: Let_def split: sum.splits)

lemma process_pages_numbered:
  assumes "process_pages tm cc all_chunks page_files = Inr res"
    and "numbered (subject tm) (grade tm) 0 all_chunks"
    and "chunk_id_counter cc = int (length all_chunks)"
    and "creator_subject cc = subject tm"
  shows "numbered (subject tm) (grade tm) 0 res"
  using assms
proof (induction page_files arbitrary: cc all_chunks)
  case Nil
  then show ?case by simp
next
  case (Cons pf pfs)
  from Cons.prems(1) obtain page_num page_text seg where
    pn: "page_number (stem pf) = Inr page_num" and pt: "page_data_text pf = Some page_text"
    and sg: "segment tm page_text page_num = Inr seg"
    by (auto split: sum.splits option.splits)
  show ?case
  proof (cases seg)
    case None
    with Cons.prems(1) pn pt sg have "process_pages tm cc all_chunks pfs = Inr res" by simp
    from Cons.IH [OF this Cons.prems(2,3,4)] show ?thesis .
  next
    case (Some chunks)
    with Cons.prems(1) pn pt sg obtain chunks' cc' where
      as: "assign_ids tm cc chunks = Inr (chunks', cc')" and
      rec: "process_pages tm cc' (all_chunks @ chunks') pfs = Inr res"
      by (auto split: sum.splits)
    have fresh: "md_page (metadata c) \<noteq> None \<and> md_chapter (metadata c) = None"
      if "c \<in> set chunks" for c
      using segment_fresh [OF sg [unfolded Some] that] .
    from assign_ids_numbered [OF as fresh Cons.prems(3)] Cons.prems(4)
    have n: "numbered (subject tm) (grade tm) (length all_chunks) chunks'"
      and k: "chunk_id_counter cc' = int (length all_chunks + length chunks)"
      and s: "creator_subject cc' = subject tm" by simp_all
    from Cons.prems(2) n have "numbered (subject tm) (grade tm) 0 (all_chunks @ chunks')"
      by (simp add: numbered_append)
    moreover from k assign_ids_length [OF as]
    have "chunk_id_counter cc' = int (length (all_chunks @ chunks'))" by simp
    ultimately show ?thesis using Cons.IH [OF rec] s by blast
  qed
qed

lemma structure_textbook_numbered:
  "structure_textbook page_files tm output_dir = Inr res \<Longrightarrow>
     numbered (subject tm) (grade tm) 0 (returned res) \<and>
     doc_chunks (written res) = returned res \<and>
     doc_total_chunks (written res) = int (length (returned res))"
  by (auto simp: structure_textbook_def new_chunk_creator_def Let_def
      split: sum.splits option.splits dest!: process_pages_numbered)

section \<open>Claim C1: the tasks of a numbered list\<close>

subsection \<open>The task pattern on a well-formed item\<close>

text \<open>Whether an item starts at a position inside a body does not depend on what
  follows the body, when that is nothing or starts with a newline.\<close>

lemma item_ahead_append:
  assumes "t \<noteq> []" and "rest = [] \<or> hd rest = 10"
  shows "item_ahead (t @ rest) = item_ahead t"
proof -
  from assms(1) obtain c cs where t: "t = c # cs" by (cases t) auto
  have tw: "takeWhile is_digit rest = []" and cr: "(case rest of [] \<Rightarrow> False | d # _ \<Rightarrow> d = 46) = False"
    using assms(2) by (cases rest; auto)+
  show ?thesis
  proof (cases "\<forall>x\<in>set cs. is_digit x")
    case True
    from tw have dw: "dropWhile is_digit rest = rest"
      using takeWhile_dropWhile_id [of is_digit rest] by simp
    from True have a: "takeWhile is_digit (cs @ rest) = cs"
      by (simp add: takeWhile_append2 tw)
    from True have b: "dropWhile is_digit (cs @ rest) = rest"
      by (simp add: dropWhile_append2 dw)
    from True have c: "dropWhile is_digit cs = []"
      by simp
    show ?thesis
      by (simp add: item_ahead_def t a b c cr)
  next
    case False
    then obtain x where x: "x \<in> set cs" "\<not> is_digit x" by blast
    then have a: "takeWhile is_digit (cs @ rest) = takeWhile is_digit cs"
      and b: "dropWhile is_digit (cs @ rest) = dropWhile is_digit cs @ rest"
      by (simp_all add: takeWhile_append1 dropWhile_append1)
    from x have "dropWhile is_digit cs \<noteq> []" by auto
    then obtain d ds where "dropWhile is_digit cs = d # ds" by (cases "dropWhile is_digit cs") auto
    with a b show ?thesis by (simp add: item_ahead_def t)
  qed
qed

lemma item_ahead_hd: "item_ahead s \<Longrightarrow> s \<noteq> [] \<and> hd s = 10"
  by (cases s) (simp_all add: item_ahead_def)

text \<open>The lazy body stops exactly where the captured text of a well-formed item
  ends: before the newline of the next item, before a newline that ends the text, or at
  the end of the text.\<close>

lemma lazy_body_append:
  assumes "no_item_ahead b" and "rest = [] \<Longrightarrow> b \<noteq> [] \<Longrightarrow> last b \<noteq> 10"
    and "rest = [] \<or> rest = [10] \<or> item_ahead rest"
  shows "lazy_body (b @ rest) = (b, rest)"
  using assms(1,2)
proof (induction b)
  case Nil
  from assms(3) consider "rest = []" | "rest = [10]" | "item_ahead rest" by blast
  then show ?case
  proof cases
    case 1
    then show ?thesis by simp
  next
    case 2
    then show ?thesis by (simp add: at_end_def)
  next
    case 3
    then obtain c cs where "rest = c # cs" using item_ahead_hd by (cases rest) auto
    with 3 show ?thesis by simp
  qed
next
  case (Cons c cs)
  from assms(3) have r: "rest = [] \<or> hd rest = 10" using item_ahead_hd by auto
  from Cons.prems(1) have "\<not> item_ahead (c # cs)" and n: "no_item_ahead cs" by simp_all
  with item_ahead_append [of "c # cs" rest] r
  have ia: "\<not> item_ahead (c # cs @ rest)" by simp
  have ae: "\<not> at_end (c # cs @ rest)"
  proof
    assume "at_end (c # cs @ rest)"
    then have "c = 10" and "cs = []" and "rest = []" by (simp_all add: at_end_def)
    with Cons.prems(2) show False by simp
  qed
  have "rest = [] \<Longrightarrow> cs \<noteq> [] \<Longrightarrow> last cs \<noteq> 10" using Cons.prems(2) by simp
  from Cons.IH [OF n this] ia ae show ?case by simp
qed

lemma task_match_item:
  assumes "num \<noteq> []" and "list_all is_digit num"
    and "sp \<noteq> []" and "list_all is_space sp"
    and "body \<noteq> []" and "\<not> is_space (hd body)"
    and "lazy_body (body @ tr @ rest) = (body @ tr, rest)"
  shows "task_match prev (num @ 46 # sp @ body @ tr @ rest) = Some ((num, body @ tr), rest)"
proof -
  have d: "takeWhile is_digit (num @ 46 # sp @ body @ tr @ rest) = num"
    "dropWhile is_digit (num @ 46 # sp @ body @ tr @ rest) = 46 # sp @ body @ tr @ rest"
    using digits_then [OF assms(2), of 46] by simp_all
  from assms(5,6) have b: "takeWhile is_space (body @ tr @ rest) = []"
    "dropWhile is_space (body @ tr @ rest) = body @ tr @ rest"
    by (simp_all add: takeWhile_hd dropWhile_hd)
  from assms(4) have "\<forall>x \<in> set sp. is_space x" by (simp add: list_all_iff)
  then have s: "takeWhile is_space (sp @ body @ tr @ rest) = sp"
    "dropWhile is_space (sp @ body @ tr @ rest) = body @ tr @ rest"
    by (simp_all add: takeWhile_append2 dropWhile_append2 b)
  show ?thesis
    using assms(1,3,7) by (simp add: task_match_def d s)
qed

lemma task_match_no_digit: "s = [] \<or> \<not> is_digit (hd s) \<Longrightarrow> task_match prev s = None"
  by (cases s) (auto simp: task_match_def)

lemma task_match_prev: "task_match prev s = task_match None s"
  by (simp add: task_match_def)

lemma findall_task_prev: "findall task_match prev s = findall task_match None s"
  by (subst findall.simps, subst (2) findall.simps) (simp add: task_match_prev [of prev])

text \<open>The captured text of an item: the body and the white space after it.\<close>

lemma well_formed_item_match:
  assumes "well_formed_item it"
    and "rest = [] \<or> rest = [10] \<or> item_ahead rest"
    and "rest = [] \<Longrightarrow> item_trail it = [] \<or> last (item_trail it) \<noteq> 10"
  shows "task_match prev (item_text it @ rest) =
           Some ((item_number it, item_body it @ item_trail it), rest)"
proof -
  from assms(1) have num: "item_number it \<noteq> []" "list_all is_digit (item_number it)"
    and sp: "item_space it \<noteq> []" "list_all is_space (item_space it)"
    and body: "item_body it \<noteq> []" "\<not> is_space (hd (item_body it))"
      "\<not> is_space (last (item_body it))"
    and nia: "no_item_ahead (item_body it @ item_trail it)"
    by (simp_all add: well_formed_item_def)
  from body(3) have "last (item_body it) \<noteq> 10" by auto
  with assms(3) body(1)
  have "rest = [] \<Longrightarrow> item_body it @ item_trail it \<noteq> [] \<Longrightarrow>
      last (item_body it @ item_trail it) \<noteq> 10"
    by (cases "item_trail it = []") simp_all
  from lazy_body_append [OF nia this assms(2)]
  have "lazy_body (item_body it @ item_trail it @ rest) =
      (item_body it @ item_trail it, rest)" by simp
  from task_match_item [OF num sp body(1,2) this] show ?thesis
    by (simp add: item_text_def)
qed

lemma render_items_starts:
  "well_formed_item it \<Longrightarrow> item_ahead (10 # render_items (it # its) @ ending)"
proof -
  assume w: "well_formed_item it"
  then have num: "item_number it \<noteq> []" "list_all is_digit (item_number it)"
    by (simp_all add: well_formed_item_def)
  obtain r where "render_items (it # its) @ ending = item_number it @ 46 # r"
    by (cases its) (auto simp: item_text_def)
  with digits_then [OF num(2), of 46 r] num(1) show ?thesis
    by (simp add: item_ahead_def)
qed

lemma render_items_hd:
  "well_formed_item it \<Longrightarrow>
     render_items (it # its) @ ending \<noteq> [] \<and> is_digit (hd (render_items (it # its) @ ending))"
proof -
  assume w: "well_formed_item it"
  then have num: "item_number it \<noteq> []" "list_all is_digit (item_number it)"
    by (simp_all add: well_formed_item_def)
  obtain r where "render_items (it # its) @ ending = item_number it @ 46 # r"
    by (cases its) (auto simp: item_text_def)
  with num show ?thesis by (cases "item_number it") simp_all
qed

text \<open>\<open>findall\<close> returns the items of a well-formed list, whatever precedes it.\<close>

lemma findall_ending: "ending = [] \<or> ending = [10] \<Longrightarrow> findall task_match prev ending = []"
  by (auto simp: findall.simps task_match_no_digit)

lemma findall_render_items:
  assumes "ending = [10] \<or>
           ending = [] \<and> (item_trail (last its) = [] \<or> last (item_trail (last its)) \<noteq> 10)"
  shows "list_all well_formed_item its \<Longrightarrow>
     findall task_match prev (render_items its @ ending) =
       map (\<lambda>it. (item_number it, item_body it @ item_trail it)) its"
  using assms
proof (induction its arbitrary: prev rule: render_items.induct)
  case 1
  then have "ending = [] \<or> ending = [10]" by auto
  then show ?case by (simp add: findall_ending)
next
  case (2 it)
  then have w: "well_formed_item it" by simp
  from "2.prems"(2) have e: "ending = [] \<or> ending = [10] \<or> item_ahead ending" by auto
  from "2.prems"(2) have "ending = [] \<Longrightarrow> item_trail it = [] \<or> last (item_trail it) \<noteq> 10"
    by auto
  from well_formed_item_match [OF w e this]
  have m: "task_match prev (item_text it @ ending) =
      Some ((item_number it, item_body it @ item_trail it), ending)" .
  from w have "item_number it \<noteq> []" by (simp add: well_formed_item_def)
  then have l: "length ending < length (item_text it @ ending)"
    by (simp add: item_text_def)
  from "2.prems"(2) have "ending = [] \<or> ending = [10]" by auto
  then have "findall task_match p ending = []" for p by (rule findall_ending)
  with m l show ?case
    by (subst findall.simps) simp
next
  case (3 it it' its)
  then have w: "well_formed_item it" and w': "well_formed_item it'"
    and ws: "list_all well_formed_item (it' # its)" by simp_all
  let ?next = "render_items (it' # its) @ ending"
  have e: "10 # ?next = [] \<or> 10 # ?next = [10] \<or> item_ahead (10 # ?next)"
    using render_items_starts [OF w'] by simp
  from well_formed_item_match [OF w e]
  have m: "task_match prev (item_text it @ 10 # ?next) =
      Some ((item_number it, item_body it @ item_trail it), 10 # ?next)" by simp
  from w have "item_number it \<noteq> []" by (simp add: well_formed_item_def)
  then have l: "length (10 # ?next) < length (item_text it @ 10 # ?next)"
    by (simp add: item_text_def)
  have skip: "findall task_match p (10 # ?next) = findall task_match (Some 10) ?next" for p
    by (subst findall.simps) (simp add: task_match_no_digit)
  have "findall task_match prev (render_items (it # it' # its) @ ending) =
          (item_number it, item_body it @ item_trail it) # findall task_match (Some 10) ?next"
    using m l by (subst findall.simps) (simp add: skip)
  moreover from "3.prems"(2)
  have "ending = [10] \<or> ending = [] \<and>
      (item_trail (last (it' # its)) = [] \<or> last (item_trail (last (it' # its))) \<noteq> 10)"
    by simp
  ultimately show ?case
    using "3.IH" [OF ws] by simp
qed

text \<open>The text before the list gives no match, when it starts no item and does not end
  in a digit (a digit there would belong to the number of the first item).\<close>

lemma task_start_append:
  assumes "\<not> task_start t" and "t \<noteq> []" and "\<not> is_digit (last t)"
    and "rest \<noteq> []" and "\<not> is_space (hd rest)"
  shows "task_match prev (t @ rest) = None"
proof (cases "takeWhile is_digit t = []")
  case True
  with assms(2) have "\<not> is_digit (hd t)" by (cases t) (auto split: if_splits)
  with assms(2) show ?thesis by (simp add: task_match_no_digit)
next
  case False
  from assms(2,3) have "\<exists>x \<in> set t. \<not> is_digit x"
    using last_in_set by blast
  then have tw: "takeWhile is_digit (t @ rest) = takeWhile is_digit t"
    and dw: "dropWhile is_digit (t @ rest) = dropWhile is_digit t @ rest"
    and ne: "dropWhile is_digit t \<noteq> []"
    by (auto simp: takeWhile_append1 dropWhile_append1)
  from ne obtain d r2 where dr: "dropWhile is_digit t = d # r2"
    by (cases "dropWhile is_digit t") auto
  show ?thesis
  proof (cases "d = 46")
    case d: True
    from assms(1) False dr d have sp: "takeWhile is_space r2 = []"
      by (auto simp: task_start_def task_match_def split: prod.splits if_splits)
    have "takeWhile is_space (r2 @ rest) = []"
    proof (cases r2)
      case Nil
      with assms(4,5) show ?thesis by (cases rest) simp_all
    next
      case (Cons x xs)
      with sp show ?thesis by (simp split: if_splits)
    qed
    with False show ?thesis by (simp add: task_match_def tw dw dr Let_def)
  next
    case False
    then show ?thesis by (simp add: task_match_def tw dw dr Let_def)
  qed
qed

lemma findall_heading:
  assumes "rest \<noteq> []" and "\<not> is_space (hd rest)"
  shows "no_task_start heading \<Longrightarrow> heading = [] \<or> \<not> is_digit (last heading) \<Longrightarrow>
     findall task_match prev (heading @ rest) = findall task_match None rest"
proof (induction heading arbitrary: prev)
  case Nil
  show ?case by (simp add: findall_task_prev [of prev])
next
  case (Cons c cs)
  from Cons.prems have "\<not> task_start (c # cs)" and "\<not> is_digit (last (c # cs))" by simp_all
  from task_start_append [OF this(1) _ this(2) assms]
  have m: "task_match prev (c # cs @ rest) = None" by simp
  from Cons.prems have "no_task_start cs" and "cs = [] \<or> \<not> is_digit (last cs)"
    by (simp_all split: if_splits)
  from Cons.IH [OF this] m show ?case
    by (subst findall.simps) simp
qed

lemma task_chunks_items:
  "list_all well_formed_item its \<Longrightarrow>
     task_chunks page_num (map (\<lambda>it. (item_number it, item_body it @ item_trail it)) its) =
       Inr (map (item_chunk page_num) its)"
proof (induction its)
  case Nil
  show ?case by simp
next
  case (Cons it its)
  from Cons.prems have num: "item_number it \<noteq> []" "list_all is_digit (item_number it)"
      "length (item_number it) \<le> int_max_str_digits"
    and body: "item_body it \<noteq> []" "\<not> is_space (hd (item_body it))"
      "\<not> is_space (last (item_body it))"
    and tr: "list_all is_space (item_trail it)"
    by (simp_all add: well_formed_item_def)
  from body(1,2) have a: "dropWhile is_space (item_body it @ item_trail it) =
      item_body it @ item_trail it"
    by (simp add: dropWhile_hd)
  from tr have "\<And>x. x \<in> set (rev (item_trail it)) \<Longrightarrow> is_space x"
    by (simp add: list_all_iff)
  then have b: "dropWhile is_space (rev (item_trail it) @ rev (item_body it)) =
      dropWhile is_space (rev (item_body it))"
    by (rule dropWhile_append2)
  from body(1,3) have c: "dropWhile is_space (rev (item_body it)) = rev (item_body it)"
    by (simp add: dropWhile_hd hd_rev)
  have "strip (item_body it @ item_trail it) = item_body it"
    by (simp add: strip_def a b c)
  with Cons py_int_digits [OF num] show ?case
    by (simp add: item_chunk_def)
qed

text \<open>An item whose number has more than 4300 digits is matched by the pattern, and
  \<open>int\<close> raises for its number.\<close>

lemma long_number_raises:
  assumes "list_all is_digit num" and "int_max_str_digits < length num"
  shows "extract_math_tasks (num @ asc ''. a'') page_num = Inl (IntValueError num)"
proof -
  from assms(2) have ne: "num \<noteq> []" by auto
  have "lazy_body ([97] @ [] @ []) = ([97] @ [], [])"
    by (simp add: item_ahead_def at_end_def)
  from task_match_item [OF ne assms(1) _ _ _ _ this, of "[32]" None]
  have m: "task_match None (num @ asc ''. a'') = Some ((num, [97]), [])"
    by (simp add: asc_def is_space_iff)
  have "findall task_match p [] = []" for p
    by (simp add: findall_ending)
  then have "findall task_match None (num @ asc ''. a'') = [(num, [97])]"
    by (subst findall.simps) (simp add: m)
  then show ?thesis
    by (simp add: extract_math_tasks_def py_int_too_long [OF assms])
qed

subsection \<open>The claim\<close>

text \<open>
  C1. On the example of the specification, the two tasks on one line, the segmenter
  produces one chunk, not two: the body of an item ends only before a newline that is
  followed by digits and a dot, or at the end of the text, so the text of task 1 runs
  on through \<open>2.\<close> and the second task to the end. And on an item whose number has
  4301 digits the segmenter produces no chunk: \<open>int\<close> raises a \<open>ValueError\<close>.
\<close>

theorem C1_counterexample:
  "extract_math_tasks tasks_on_one_line 1 =
     Inr [\<lparr>chunk_id = asc ''math_temp_1_1'',
           metadata = empty_metadata
             \<lparr>md_page := Some 1, md_task_number := Some 1,
              md_content_type := Some (asc ''task'')\<rparr>,
           content = \<lparr>c_text = task_body_1 @ asc '' 2. '' @ task_body_2,
                      c_formulas = Some []\<rparr>\<rparr>] \<and>
   extract_math_tasks long_item_text 1 = Inl (IntValueError long_number)"
proof -
  have "list_all is_digit long_number" and "int_max_str_digits < length long_number"
    by (simp_all add: long_number_def list_all_iff is_digit_low int_max_str_digits_def)
  from long_number_raises [OF this]
  have "extract_math_tasks long_item_text 1 = Inl (IntValueError long_number)"
    by (simp add: long_item_text_def)
  moreover have "extract_math_tasks tasks_on_one_line 1 =
     Inr [\<lparr>chunk_id = asc ''math_temp_1_1'',
           metadata = empty_metadata
             \<lparr>md_page := Some 1, md_task_number := Some 1,
              md_content_type := Some (asc ''task'')\<rparr>,
           content = \<lparr>c_text = task_body_1 @ asc '' 2. '' @ task_body_2,
                      c_formulas = Some []\<rparr>\<rparr>]"
    by (simp add: extract_math_tasks_def extract_formulas_def strip_def tasks_on_one_line_def
        task_body_1_def task_body_2_def asc_def match_eval class_eval int_eval split.simps)
  ultimately show ?thesis by simp
qed

text \<open>
  C1, amended. A page text is a numbered list when it is a text that starts no item and
  does not end in a digit, followed by one or more well-formed items, each but the
  first directly after a newline, and at most one more newline at the end (a newline
  that ends the page text is this one, not white space of the last item). For every
  such page text, and a page number of at most 4300 digits, the segmenter produces
  exactly one chunk for each item, in the order of the page: its task number is the
  integer that the number of the item denotes, and its text is the body of the item,
  without the white space around it and with nothing of the next item.
\<close>

theorem C1_numbered_list:
  assumes "no_task_start heading" and "heading = [] \<or> \<not> is_digit (last heading)"
    and "its \<noteq> []" and "list_all well_formed_item its"
    and "ending = [10] \<or>
         ending = [] \<and> (item_trail (last its) = [] \<or> last (item_trail (last its)) \<noteq> 10)"
    and "formattable page_num"
  shows "extract_math_tasks (heading @ render_items its @ ending) page_num =
           Inr (map (item_chunk page_num) its)"
proof -
  from assms(3) obtain it its' where its: "its = it # its'" by (cases its) auto
  with assms(4) have "well_formed_item it" by simp
  from render_items_hd [OF this, of its' ending] its
  have "render_items its @ ending \<noteq> []" and "\<not> is_space (hd (render_items its @ ending))"
    using digit_not_space by auto
  from findall_heading [OF this assms(1,2)]
  have "findall task_match None (heading @ render_items its @ ending) =
      findall task_match None (render_items its @ ending)" .
  with findall_render_items [OF assms(5,4)] task_chunks_items [OF assms(4)]
  show ?thesis
    by (simp add: extract_math_tasks_def)
qed

text \<open>The two tasks of the example, on two lines, give the two chunks of the tasks 1
  and 2, each with its own body as text. So does the list after a heading, with more
  white space around the bodies and a blank line between the items.\<close>

theorem C1_witness:
  "no_task_start [] \<and> no_task_start spaced_heading \<and> \<not> is_digit (last spaced_heading) \<and>
   list_all well_formed_item example_items \<and> list_all well_formed_item spaced_items \<and>
   formattable 1 \<and>
   [] @ render_items example_items @ [] = tasks_on_two_lines \<and>
   spaced_heading @ render_items spaced_items @ [] = spaced_list \<and>
   extract_math_tasks tasks_on_two_lines 1 = Inr (map (item_chunk 1) example_items) \<and>
   extract_math_tasks spaced_list 1 = Inr (map (item_chunk 1) spaced_items) \<and>
   map (\<lambda>c. md_task_number (metadata c)) (map (item_chunk 1) example_items) = [Some 1, Some 2] \<and>
   map (\<lambda>c. c_text (content c)) (map (item_chunk 1) example_items) = [task_body_1, task_body_2] \<and>
   map (\<lambda>c. md_task_number (metadata c)) (map (item_chunk 1) spaced_items) = [Some 1, Some 2] \<and>
   map (\<lambda>c. c_text (content c)) (map (item_chunk 1) spaced_items) = [asc ''a'', asc ''b'']"
proof -
  have h: "no_task_start []" "[] = [] \<or> \<not> is_digit (last ([] :: pystr))" by simp_all
  have h': "no_task_start spaced_heading" "\<not> is_digit (last spaced_heading)"
    by (simp_all add: spaced_heading_def task_start_def task_match_def asc_def class_eval)
  have w: "list_all well_formed_item example_items"
    by (simp add: example_items_def well_formed_item_def task_body_1_def task_body_2_def
        asc_def item_ahead_def class_eval int_max_str_digits_def)
  have w': "list_all well_formed_item spaced_items"
    by (simp add: spaced_items_def well_formed_item_def asc_def item_ahead_def class_eval
        int_max_str_digits_def)
  have n: "example_items \<noteq> []" "spaced_items \<noteq> []"
    by (simp_all add: example_items_def spaced_items_def)
  have e: "[] = [10] \<or> [] = [] \<and>
      (item_trail (last example_items) = [] \<or> last (item_trail (last example_items)) \<noteq> 10)"
    by (simp add: example_items_def)
  have e': "[] = [10] \<or> [] = [] \<and>
      (item_trail (last spaced_items) = [] \<or> last (item_trail (last spaced_items)) \<noteq> 10)"
    by (simp add: spaced_items_def)
  have f: "formattable 1"
    by (simp add: formattable_def str_nat.simps int_max_str_digits_def)
  have r: "[] @ render_items example_items @ [] = tasks_on_two_lines"
    by (simp add: example_items_def tasks_on_two_lines_def item_text_def asc_def)
  have r': "spaced_heading @ render_items spaced_items @ [] = spaced_list"
    by (simp add: spaced_items_def spaced_heading_def spaced_list_def item_text_def asc_def)
  have t: "map (\<lambda>c. md_task_number (metadata c)) (map (item_chunk 1) example_items) = [Some 1, Some 2]"
    "map (\<lambda>c. c_text (content c)) (map (item_chunk 1) example_items) = [task_body_1, task_body_2]"
    "map (\<lambda>c. md_task_number (metadata c)) (map (item_chunk 1) spaced_items) = [Some 1, Some 2]"
    "map (\<lambda>c. c_text (content c)) (map (item_chunk 1) spaced_items) = [asc ''a'', asc ''b'']"
    by (simp_all add: example_items_def spaced_items_def item_chunk_def empty_metadata_def
        asc_def digits_value_def class_eval)
  from C1_numbered_list [OF h n(1) w e f] C1_numbered_list [OF h'(1) disjI2 [OF h'(2)] n(2) w' e' f]
  have "extract_math_tasks tasks_on_two_lines 1 = Inr (map (item_chunk 1) example_items)"
    and "extract_math_tasks spaced_list 1 = Inr (map (item_chunk 1) spaced_items)"
    by (simp_all only: r r')
  with h'  w w' f r r' t show ?thesis by simp
qed

section \<open>Claim C4: the text of a stored chunk\<close>

text \<open>
  The history segmenter drops the paragraphs that are empty after stripping, so the text
  of each of its chunks is non-empty.
\<close>

lemma strip_paragraphs_nonempty: "p \<in> set (paragraphs page_text) \<Longrightarrow> p \<noteq> []"
  by (auto simp: paragraphs_def)

lemma history_text_nonempty:
  assumes "c \<in> set (extract_history_content page_text page_num)"
  shows "c_text (content c) \<noteq> []"
proof -
  from assms obtain idx para
    where ip: "(idx, para) \<in> set (enumerate 0 (paragraphs page_text))"
      and c: "c = history_chunk page_num idx para"
    unfolding extract_history_content_def by auto
  from ip have "para \<in> set (paragraphs page_text)"
    by (auto simp: in_set_enumerate_eq)
  then have "para \<noteq> []"
    by (rule strip_paragraphs_nonempty)
  then show ?thesis
    by (simp add: c history_chunk_def)
qed

text \<open>
  C4. Every chunk the segmenter produces has a non-empty \<open>content.text\<close>, for both
  subjects. The mathematics segmenter has no filter like the one of the history
  segmenter: on the page text \<open>"1. "\<close> the pattern matches with an empty body, and the
  chunk of task 1 is produced with the empty string as its text.
\<close>

theorem C4_math_empty_text:
  "extract_math_tasks (asc ''1. '') page_num =
     Inr [\<lparr>chunk_id = asc ''math_temp_'' @ str_int page_num @ asc ''_1'',
           metadata = empty_metadata
             \<lparr>md_page := Some page_num, md_task_number := Some 1,
              md_content_type := Some (asc ''task'')\<rparr>,
           content = \<lparr>c_text = [], c_formulas = Some []\<rparr>\<rparr>]"
  by (simp add: extract_math_tasks_def extract_formulas_def strip_def asc_def
      match_eval class_eval py_int_def int_max_str_digits_def digits_value_def split.simps)

section \<open>Claims C5 and C7: the final identifiers\<close>

text \<open>The run over the two pages of the example: its three identifiers are
  \<open><subject>_5_ch0_p2_1\<close>, \<open><subject>_5_ch0_p2_2\<close> and \<open><subject>_5_ch0_p3_3\<close>.\<close>

lemma demo_run:
  "\<exists>res. structure_textbook demo_pages demo_textbook plain_directory = Inr res \<and>
     map chunk_id (returned res) =
       [subject_math @ asc ''_5_ch0_p2_1'', subject_math @ asc ''_5_ch0_p2_2'',
        subject_math @ asc ''_5_ch0_p3_3'']"
  by (simp add: structure_textbook_def demo_pages_def demo_textbook_def new_chunk_creator_def
      segment_def page_number_def split.simps extract_math_tasks_def extract_formulas_def
      create_chunk_id_def subject_math_def asc_def match_eval class_eval int_eval Let_def
      empty_metadata_def plain_directory_def json_dump_def document_dict_def model_dump_def
      chunk_dict_def metadata_dict_def content_dict_def opt_key_def py_strs_def
      encodable_def formattable_def strip_def)

text \<open>
  C5. In the collection of one run of \<open>structure_textbook\<close>, over any number of page
  files, the final identifiers of the chunks are pairwise distinct.
\<close>

theorem C5_chunk_ids_distinct:
  assumes "structure_textbook page_files tm output_dir = Inr res"
  shows "distinct (map chunk_id (returned res)) \<and>
         distinct (map chunk_id (doc_chunks (written res)))"
  using structure_textbook_numbered [OF assms] numbered_distinct by auto

theorem C5_witness:
  "\<exists>res. structure_textbook demo_pages demo_textbook plain_directory = Inr res \<and>
     length (returned res) = 3 \<and> distinct (map chunk_id (returned res)) \<and>
     distinct (map chunk_id (doc_chunks (written res)))"
proof -
  from demo_run obtain res where r: "structure_textbook demo_pages demo_textbook plain_directory = Inr res"
    and ids: "map chunk_id (returned res) =
       [subject_math @ asc ''_5_ch0_p2_1'', subject_math @ asc ''_5_ch0_p2_2'',
        subject_math @ asc ''_5_ch0_p3_3'']"
    by (elim exE conjE) (rule that, assumption+)
  from ids have "length (map chunk_id (returned res)) = 3" by simp
  then have "length (returned res) = 3" by simp
  with r C5_chunk_ids_distinct [OF r] show ?thesis by blast
qed

text \<open>
  C7. The final identifier of every chunk of a run is assigned by the counter of the
  run: the chunk at position \<open>i\<close> of the collection (counted from 0, in processing
  order) has the identifier composed of the subject, the grade, the chapter, the page
  of the chunk and the counter value \<open>i + 1\<close>. The chapter is 0, the default, since
  the key \<open>chapter\<close> is absent from the metadata of every chunk.
\<close>

theorem C7_sequential_chunk_ids:
  assumes "structure_textbook page_files tm output_dir = Inr res" and "i < length (returned res)"
  shows "\<exists>p. md_page (metadata (returned res ! i)) = Some p \<and>
           md_chapter (metadata (returned res ! i)) = None \<and>
           chunk_id (returned res ! i) =
             subject tm @ asc ''_'' @ str_int (grade tm) @ asc ''_ch'' @ str_int 0 @
             asc ''_p'' @ str_int p @ asc ''_'' @ str_int (int i + 1)"
proof -
  from structure_textbook_numbered [OF assms(1)]
  have "numbered (subject tm) (grade tm) 0 (returned res)" by simp
  from numbered_nth [OF this assms(2)] show ?thesis
    by (auto simp: final_id_def add.commute)
qed

theorem C7_witness:
  "\<exists>res. structure_textbook demo_pages demo_textbook plain_directory = Inr res \<and> 2 < length (returned res) \<and>
     (\<exists>p. md_page (metadata (returned res ! 2)) = Some p \<and>
        md_chapter (metadata (returned res ! 2)) = None \<and>
        chunk_id (returned res ! 2) =
          subject demo_textbook @ asc ''_'' @ str_int (grade demo_textbook) @ asc ''_ch'' @
          str_int 0 @ asc ''_p'' @ str_int p @ asc ''_'' @ str_int (int 2 + 1)) \<and>
     chunk_id (returned res ! 2) = subject_math @ asc ''_5_ch0_p3_3''"
proof -
  from demo_run obtain res where r: "structure_textbook demo_pages demo_textbook plain_directory = Inr res"
    and ids: "map chunk_id (returned res) =
       [subject_math @ asc ''_5_ch0_p2_1'', subject_math @ asc ''_5_ch0_p2_2'',
        subject_math @ asc ''_5_ch0_p3_3'']"
    by (elim exE conjE) (rule that, assumption+)
  from ids have "length (map chunk_id (returned res)) = 3" by simp
  then have l: "2 < length (returned res)" by simp
  from ids l have "map chunk_id (returned res) ! 2 = subject_math @ asc ''_5_ch0_p3_3''"
    by simp
  with l have "chunk_id (returned res ! 2) = subject_math @ asc ''_5_ch0_p3_3''"
    by simp
  with r l C7_sequential_chunk_ids [OF r l] show ?thesis by blast
qed

section \<open>Claim C6: the paragraphs of the history segmenter\<close>

subsection \<open>\<open>strip\<close> and \<open>split\<close>\<close>

text \<open>\<open>strip\<close> takes the white space off both ends and nothing else; what is left is
  empty exactly for a string of white space.\<close>

lemma strip_empty_iff: "strip q = [] \<longleftrightarrow> list_all is_space q"
proof
  assume e: "strip q = []"
  have "dropWhile is_space q = []"
  proof (rule ccontr)
    assume n: "dropWhile is_space q \<noteq> []"
    then have "\<not> is_space (hd (dropWhile is_space q))" by (rule hd_dropWhile)
    moreover from e have "\<forall>x \<in> set (dropWhile is_space q). is_space x"
      by (simp add: strip_def)
    ultimately show False using n by simp
  qed
  then show "list_all is_space q" by (simp add: list_all_iff)
next
  assume "list_all is_space q"
  then show "strip q = []" by (auto simp: strip_def list_all_iff dest: set_dropWhileD)
qed

lemma strip_decomposition:
  "\<exists>lead trail. q = lead @ strip q @ trail \<and> list_all is_space lead \<and> list_all is_space trail \<and>
     (strip q = [] \<or> \<not> is_space (hd (strip q)) \<and> \<not> is_space (last (strip q)))"
proof -
  let ?d = "dropWhile is_space q"
  let ?lead = "takeWhile is_space q"
  let ?trail = "rev (takeWhile is_space (rev ?d))"
  have "rev (takeWhile is_space (rev ?d) @ dropWhile is_space (rev ?d)) = rev (rev ?d)"
    by (simp only: takeWhile_dropWhile_id)
  then have "rev (dropWhile is_space (rev ?d)) @ ?trail = ?d"
    by (simp only: rev_append rev_rev_ident)
  then have d: "?d = strip q @ ?trail" by (simp only: strip_def)
  have "q = ?lead @ ?d" by simp
  with d have a: "q = ?lead @ strip q @ ?trail" by simp
  have b: "list_all is_space ?lead" "list_all is_space ?trail"
    by (auto simp: list_all_iff dest: set_takeWhileD)
  have c: "\<not> is_space (hd (strip q)) \<and> \<not> is_space (last (strip q))" if n: "strip q \<noteq> []"
  proof
    from n d have "?d \<noteq> []" by (metis append_is_Nil_conv)
    then have "\<not> is_space (hd ?d)" by (rule hd_dropWhile)
    moreover from n d have "hd ?d = hd (strip q)" by (metis hd_append2)
    ultimately show "\<not> is_space (hd (strip q))" by simp
    from n have m: "dropWhile is_space (rev ?d) \<noteq> []" by (simp add: strip_def)
    then have "\<not> is_space (hd (dropWhile is_space (rev ?d)))" by (rule hd_dropWhile)
    moreover from m have "last (strip q) = hd (dropWhile is_space (rev ?d))"
      by (simp add: strip_def last_rev)
    ultimately show "\<not> is_space (last (strip q))" by simp
  qed
  from a b c show ?thesis by blast
qed

text \<open>\<open>split\<close> cuts the text at occurrences of the separator: joining the pieces with
  the separator gives the text back, and no piece between \<open>'\n\n'\<close> holds two newline
  characters in a row.\<close>

lemma split_Nil: "split sep [] = [[]]"
  by (subst split.simps) simp

lemma split_hit:
  "s \<noteq> [] \<Longrightarrow> sep \<noteq> [] \<Longrightarrow> take (length sep) s = sep \<Longrightarrow>
     split sep s = [] # split sep (drop (length sep) s)"
  by (subst split.simps) simp

lemma split_miss:
  "s \<noteq> [] \<Longrightarrow> \<not> (sep \<noteq> [] \<and> take (length sep) s = sep) \<Longrightarrow>
     split sep s = (case split sep (tl s) of [] \<Rightarrow> [[hd s]] | p # ps \<Rightarrow> (hd s # p) # ps)"
  by (subst split.simps) auto

lemma split_nonempty: "split sep s \<noteq> []"
  by (subst split.simps) (simp split: list.split)

lemma join_Cons: "ps \<noteq> [] \<Longrightarrow> join sep (p # ps) = p @ sep @ join sep ps"
  by (cases ps) simp_all

lemma join_hd_Cons: "join sep ((c # p) # ps) = c # join sep (p # ps)"
  by (cases ps) simp_all

lemma join_split: "join sep (split sep s) = s"
proof (induction sep s rule: split.induct)
  case (1 sep s)
  show ?case
  proof (cases "s = []")
    case True
    then show ?thesis by (simp add: split_Nil)
  next
    case ne: False
    show ?thesis
    proof (cases "sep \<noteq> [] \<and> take (length sep) s = sep")
      case True
      with ne "1.IH"(1) have "join sep (split sep (drop (length sep) s)) = drop (length sep) s"
        by simp
      moreover from True have "sep @ drop (length sep) s = s"
        by (metis append_take_drop_id)
      moreover from ne True have "split sep s = [] # split sep (drop (length sep) s)"
        by (simp add: split_hit)
      ultimately show ?thesis
        by (simp add: join_Cons split_nonempty)
    next
      case False
      with ne "1.IH"(2) have ih: "join sep (split sep (tl s)) = tl s" by simp
      obtain p ps where ps: "split sep (tl s) = p # ps"
        using split_nonempty [of sep "tl s"] by (cases "split sep (tl s)") auto
      with ih have "hd s # join sep (p # ps) = s" using ne by simp
      moreover from split_miss [OF ne False] ps have "split sep s = (hd s # p) # ps" by simp
      ultimately show ?thesis
        by (simp add: join_hd_Cons)
    qed
  qed
qed

lemma join_prefix: "\<exists>r. join sep (p # ps) = p @ r"
  by (cases ps) simp_all

lemma split_no_blank_sep: "sep = [10, 10] \<Longrightarrow> list_all (\<lambda>q. \<not> has_blank q) (split sep s)"
proof (induction sep s rule: split.induct)
  case (1 sep s)
  show ?case
  proof (cases "s = []")
    case True
    then show ?thesis by (simp add: split_Nil)
  next
    case ne: False
    show ?thesis
    proof (cases "sep \<noteq> [] \<and> take (length sep) s = sep")
      case True
      with ne "1.IH"(1) "1.prems"
      have "list_all (\<lambda>q. \<not> has_blank q) (split sep (drop (length sep) s))" by blast
      moreover from ne True have "split sep s = [] # split sep (drop (length sep) s)"
        by (simp add: split_hit)
      ultimately show ?thesis by simp
    next
      case False
      with ne "1.IH"(2) "1.prems"
      have ih: "list_all (\<lambda>q. \<not> has_blank q) (split sep (tl s))" by blast
      obtain p ps where ps: "split sep (tl s) = p # ps"
        using split_nonempty [of sep "tl s"] by (cases "split sep (tl s)") auto
      from join_split [of sep "tl s"] ps join_prefix [of sep p ps]
      obtain r where r: "tl s = p @ r" by auto
      have "\<not> has_blank (hd s # p)"
      proof (cases p)
        case Nil
        then show ?thesis by simp
      next
        case (Cons x xs)
        from ne obtain c t where ct: "s = c # t" by (cases s) auto
        with r Cons have t: "t = x # xs @ r" by simp
        from False "1.prems" have "take 2 s \<noteq> [10, 10]" by (simp add: numeral_2_eq_2)
        with ct t have "\<not> (c = 10 \<and> x = 10)"
          by (auto simp: numeral_2_eq_2)
        moreover from ih ps Cons have "\<not> has_blank (x # xs)" by simp
        ultimately show ?thesis using Cons ct by simp
      qed
      moreover from split_miss [OF ne False] ps have "split sep s = (hd s # p) # ps" by simp
      ultimately show ?thesis
        using ih ps by simp
    qed
  qed
qed

lemma split_no_blank: "list_all (\<lambda>q. \<not> has_blank q) (split [10, 10] s)"
  by (rule split_no_blank_sep) simp

subsection \<open>The chunks of a page\<close>

lemma history_texts:
  "map (\<lambda>c. c_text (content c)) (extract_history_content page_text page_num) =
     paragraphs page_text"
proof -
  have "map (\<lambda>c. c_text (content c)) (extract_history_content page_text page_num) =
          map snd (enumerate 0 (paragraphs page_text))"
    by (simp add: extract_history_content_def history_chunk_def case_prod_unfold o_def)
  then show ?thesis by simp
qed

lemma paragraphs_not_space:
  "paragraphs page_text =
     map strip (filter (\<lambda>q. \<not> list_all is_space q) (split [10, 10] page_text))"
  by (simp add: paragraphs_def strip_empty_iff)

lemma history_example_chunks:
  "extract_history_content history_example page_num =
     [history_chunk page_num 0 history_paragraph_1,
      history_chunk page_num 1 history_paragraph_2]"
  by (simp add: extract_history_content_def paragraphs_def history_example_def
      history_paragraph_1_def history_paragraph_2_def split.simps strip_def class_eval)

lemma history_example_dates:
  "findall date_match None history_paragraph_1 = [date_1242]"
  "findall date_match None history_paragraph_2 = []"
  by (simp_all add: history_paragraph_1_def history_paragraph_2_def date_1242_def
      match_eval class_eval)

lemma history_example_names:
  "findall name_match None history_paragraph_1 = []"
  "findall name_match None history_paragraph_2 = [ivan_grozny]"
  by (simp_all add: history_paragraph_1_def history_paragraph_2_def ivan_grozny_def
      match_eval class_eval)

text \<open>
  C6. The claim is one chunk for each non-empty paragraph between blank lines. The
  segmenter cuts the page at two newline characters in a row, and only there: a line
  between two paragraphs that holds a space, or lines that end in a carriage return
  and a newline, leave the two paragraphs in one chunk.
\<close>

theorem C6_counterexample:
  "map (\<lambda>c. c_text (content c)) (extract_history_content space_line_page 1) =
     [[65, 10, 32, 10, 66]] \<and>
   map (\<lambda>c. c_text (content c)) (extract_history_content crlf_page 1) =
     [[65, 13, 10, 13, 10, 66]]"
  by (simp add: history_texts paragraphs_def space_line_page_def crlf_page_def split.simps
      strip_def class_eval)

text \<open>
  C6, amended. The paragraphs of a page text are its pieces between the occurrences of
  two newline characters in a row: joined with \<open>'\n\n'\<close> they give the page text, and
  none of them holds two newline characters in a row. For every page text, and a page
  number of at most 4300 digits, the segmenter produces exactly one chunk for each
  paragraph that is not white space only, in the order of the paragraphs, and none for
  a paragraph of white space; the text of the chunk is the paragraph without the white
  space at its two ends. The example of two paragraphs gives two chunks; the dates of
  the first are \<open>["1242 g."]\<close> and the historical figures of the second are the one
  name of the paragraph.
\<close>

theorem C6_history_paragraphs:
  assumes "formattable page_num"
  shows "map (\<lambda>c. c_text (content c)) (extract_history_content page_text page_num) =
     map strip (filter (\<lambda>q. \<not> list_all is_space q) (split [10, 10] page_text)) \<and>
   join [10, 10] (split [10, 10] page_text) = page_text \<and>
   list_all (\<lambda>q. \<not> has_blank q) (split [10, 10] page_text) \<and>
   (\<forall>q. \<exists>lead trail. q = lead @ strip q @ trail \<and>
      list_all is_space lead \<and> list_all is_space trail \<and>
      (strip q = [] \<or> \<not> is_space (hd (strip q)) \<and> \<not> is_space (last (strip q)))) \<and>
   map (\<lambda>c. c_text (content c)) (extract_history_content history_example page_num) =
     [history_paragraph_1, history_paragraph_2] \<and>
   map (\<lambda>c. md_dates (metadata c)) (extract_history_content history_example page_num) =
     [Some [date_1242], Some []] \<and>
   map (\<lambda>c. md_historical_figures (metadata c))
     (extract_history_content history_example page_num) = [Some [], Some [ivan_grozny]]"
  using strip_decomposition
  by (simp add: history_texts paragraphs_not_space join_split split_no_blank
      history_example_chunks history_chunk_def history_example_dates history_example_names)

text \<open>On the third example page the pieces are \<open>" A "\<close>, a space and a tab, and a
  newline, \<open>B\<close> and a newline; the chunks are \<open>A\<close> and \<open>B\<close>.\<close>

theorem C6_witness:
  "formattable 1 \<and>
   split [10, 10] padded_page = [[32, 65, 32], [32, 9], [10, 66, 10]] \<and>
   map (\<lambda>c. c_text (content c)) (extract_history_content padded_page 1) = [[65], [66]] \<and>
   join [10, 10] (split [10, 10] padded_page) = padded_page \<and>
   map (\<lambda>c. c_text (content c)) (extract_history_content history_example 1) =
     [history_paragraph_1, history_paragraph_2] \<and>
   map (\<lambda>c. md_dates (metadata c)) (extract_history_content history_example 1) =
     [Some [date_1242], Some []] \<and>
   map (\<lambda>c. md_historical_figures (metadata c)) (extract_history_content history_example 1) =
     [Some [], Some [ivan_grozny]]"
proof -
  have f: "formattable 1"
    by (simp add: formattable_def str_nat.simps int_max_str_digits_def)
  have s: "split [10, 10] padded_page = [[32, 65, 32], [32, 9], [10, 66, 10]]"
    by (simp add: padded_page_def split.simps)
  have "map strip (filter (\<lambda>q. \<not> list_all is_space q) [[32, 65, 32], [32, 9], [10, 66, 10]]) =
      [[65], [66]]"
    by (simp add: strip_def class_eval)
  with C6_history_paragraphs [OF f, of padded_page] C6_history_paragraphs [OF f, of history_example]
    f s
  show ?thesis by simp
qed

section \<open>Claim C9: the document is read back as it was written\<close>

subsection \<open>What \<open>json.load\<close> reads from what \<open>json.dump\<close> wrote\<close>

lemma first_fault_None: "first_fault fs = None \<longleftrightarrow> (\<forall>f \<in> set fs. f = None)"
  by (induction fs rule: first_fault.induct) auto

lemma load_what_was_dumped:
  "dump_fault v = None \<Longrightarrow> load_fault (to_json v) = None \<and> of_json (to_json v) = v"
proof (induction v)
  case (PList vs)
  then have "\<forall>v \<in> set vs. load_fault (to_json v) = None \<and> of_json (to_json v) = v"
    by (auto simp: first_fault_None)
  then show ?case
    by (auto simp: first_fault_None comp_def intro: map_idI)
next
  case (PDict kvs)
  define g where "g = (\<lambda>kv :: pystr \<times> pyval.
    if encodable (fst kv) then dump_fault (snd kv) else Some UnicodeEncodeError)"
  from PDict.prems have "first_fault (map g kvs) = None"
    by (simp add: g_def)
  then have all: "\<forall>f \<in> set (map g kvs). f = None"
    by (simp only: first_fault_None)
  have "\<forall>kv \<in> set kvs. load_fault (to_json (snd kv)) = None \<and> of_json (to_json (snd kv)) = snd kv"
  proof
    fix kv assume m: "kv \<in> set kvs"
    then have "g kv \<in> set (map g kvs)" by simp
    with all have "g kv = None" by blast
    then have "dump_fault (snd kv) = None"
      by (simp add: g_def split: if_splits)
    moreover have "snd kv \<in> Basic_BNFs.snds kv"
      by (cases kv) simp
    ultimately show "load_fault (to_json (snd kv)) = None \<and> of_json (to_json (snd kv)) = snd kv"
      using PDict.IH m by blast
  qed
  then have h: "\<And>kv. kv \<in> set kvs \<Longrightarrow>
      load_fault (to_json (snd kv)) = None \<and> of_json (to_json (snd kv)) = snd kv"
    by blast
  have "map (\<lambda>kv. (fst kv, of_json (to_json (snd kv)))) kvs = kvs"
    by (rule map_idI) (simp add: h)
  moreover have "first_fault (map (\<lambda>kv. load_fault (to_json (snd kv))) kvs) = None"
    by (simp add: first_fault_None h)
  ultimately show ?case
    by (simp add: comp_def)
qed (simp_all split: if_splits)

lemma json_roundtrip:
  "dump_fault v = None \<Longrightarrow> json_dump v = Inr (to_json v) \<and> json_load (to_json v) = Inr v"
  by (simp add: json_dump_def json_load_def load_what_was_dumped)

subsection \<open>A chunk is determined by its dictionary\<close>

lemma asc_inj: "asc k = asc k' \<longleftrightarrow> k = k'"
  by (simp add: asc_def inj_map_eq_map inj_on_def)

lemma lookup_skip:
  "k \<noteq> k' \<Longrightarrow> map_of (opt_key k f v @ rest) (asc k') = map_of rest (asc k')"
  by (simp add: opt_key_def asc_inj split: option.split)

lemma lookup_skip_last: "k \<noteq> k' \<Longrightarrow> map_of (opt_key k f v) (asc k') = None"
  by (simp add: opt_key_def asc_inj split: option.split)

lemma lookup_hit:
  "map_of rest (asc k) = None \<Longrightarrow> map_of (opt_key k f v @ rest) (asc k) = map_option f v"
  by (simp add: opt_key_def split: option.split)

lemma lookup_hit_last: "map_of (opt_key k f v) (asc k) = map_option f v"
  by (simp add: opt_key_def split: option.split)

lemmas lookup = lookup_skip lookup_skip_last lookup_hit lookup_hit_last

lemma py_strs_inj: "py_strs xs = py_strs ys \<longleftrightarrow> xs = ys"
  by (simp add: py_strs_def inj_map_eq_map inj_on_def)

lemma option_PInt_inj: "map_option PInt a = map_option PInt b \<longleftrightarrow> a = b"
  by (cases a; cases b) simp_all

lemma option_PStr_inj: "map_option PStr a = map_option PStr b \<longleftrightarrow> a = b"
  by (cases a; cases b) simp_all

lemma option_py_strs_inj: "map_option py_strs a = map_option py_strs b \<longleftrightarrow> a = b"
  by (cases a; cases b) (simp_all add: py_strs_inj)

lemmas option_inj = option_PInt_inj option_PStr_inj option_py_strs_inj

lemma metadata_lookup:
  assumes "metadata_dict m = PDict kvs"
  shows "map_of kvs (asc ''page'') = map_option PInt (md_page m)"
    and "map_of kvs (asc ''task_number'') = map_option PInt (md_task_number m)"
    and "map_of kvs (asc ''content_type'') = map_option PStr (md_content_type m)"
    and "map_of kvs (asc ''dates'') = map_option py_strs (md_dates m)"
    and "map_of kvs (asc ''historical_figures'') = map_option py_strs (md_historical_figures m)"
    and "map_of kvs (asc ''textbook_title'') = map_option PStr (md_textbook_title m)"
    and "map_of kvs (asc ''grade'') = map_option PInt (md_grade m)"
    and "map_of kvs (asc ''subject'') = map_option PStr (md_subject m)"
    and "map_of kvs (asc ''author'') = map_option PStr (md_author m)"
    and "map_of kvs (asc ''chapter'') = map_option PInt (md_chapter m)"
  using assms [symmetric] unfolding metadata_dict_def
  by (simp_all add: lookup del: map_of_append)

lemma metadata_dict_inj:
  assumes "metadata_dict m = metadata_dict m'"
  shows "m = m'"
proof -
  obtain kvs where k: "metadata_dict m = PDict kvs"
    by (simp add: metadata_dict_def)
  with assms have k': "metadata_dict m' = PDict kvs" by simp
  show ?thesis
    using metadata_lookup [OF k] metadata_lookup [OF k']
    by (intro chunk_metadata.equality) (simp_all add: option_inj)
qed

lemma content_dict_inj:
  assumes "content_dict c = content_dict c'"
  shows "c = c'"
proof -
  from assms have t: "c_text c = c_text c'"
    and "opt_key ''formulas'' py_strs (c_formulas c) = opt_key ''formulas'' py_strs (c_formulas c')"
    by (simp_all add: content_dict_def)
  then have "c_formulas c = c_formulas c'"
    by (cases "c_formulas c"; cases "c_formulas c'") (simp_all add: opt_key_def py_strs_inj)
  with t show ?thesis by (intro chunk_content.equality) simp_all
qed

lemma chunk_dict_inj: "chunk_dict c = chunk_dict c' \<Longrightarrow> c = c'"
  by (intro chunk.equality)
    (simp_all add: chunk_dict_def metadata_dict_inj content_dict_inj)

subsection \<open>The claim\<close>

lemma surrogate_run:
  "process_pages demo_textbook (new_chunk_creator (subject demo_textbook)) [] surrogate_pages =
     Inr [surrogate_chunk]"
  by (simp add: surrogate_pages_def surrogate_chunk_def demo_textbook_def new_chunk_creator_def
      segment_def page_number_def split.simps extract_math_tasks_def extract_formulas_def
      create_chunk_id_def subject_math_def asc_def match_eval class_eval int_eval Let_def
      empty_metadata_def strip_def)

text \<open>
  C9. For every chunk collection, the claim is that writing the document and reading it
  back reproduces the chunks. A collection can hold a string that the file cannot take:
  the page whose task has a lone surrogate as its body (a page file with an escaped
  surrogate is read so by \<open>json.load\<close>) gives a chunk with that text, and the write of
  the collection with this chunk raises \<open>UnicodeEncodeError\<close>, in \<open>json.dump\<close> as in
  the run of \<open>structure_textbook\<close>; no document is there to be read back.
\<close>

theorem C9_counterexample:
  "process_pages demo_textbook (new_chunk_creator (subject demo_textbook)) [] surrogate_pages =
     Inr [surrogate_chunk] \<and>
   json_dump (document_dict \<lparr>doc_metadata = demo_textbook, doc_chunks = [surrogate_chunk],
                            doc_total_chunks = 1\<rparr>) = Inl UnicodeEncodeError \<and>
   structure_textbook surrogate_pages demo_textbook plain_directory = Inl UnicodeEncodeError"
proof -
  have "json_dump (document_dict \<lparr>doc_metadata = demo_textbook, doc_chunks = [surrogate_chunk],
      doc_total_chunks = 1\<rparr>) = Inl UnicodeEncodeError"
    by (simp add: json_dump_def document_dict_def model_dump_def chunk_dict_def
        metadata_dict_def content_dict_def opt_key_def py_strs_def surrogate_chunk_def
        demo_textbook_def subject_math_def empty_metadata_def encodable_def formattable_def
        asc_def int_eval)
  moreover have "plain_directory (subject demo_textbook @ asc ''_'' @
      str_int (grade demo_textbook) @ asc ''_chunks.json'') = None"
    by (simp add: plain_directory_def demo_textbook_def subject_math_def asc_def int_eval)
  ultimately show ?thesis
    by (simp add: structure_textbook_def surrogate_run)
qed

text \<open>
  C9, amended. For every chunk collection that can be written (no string of the
  document holds a lone surrogate and no integer of it has more than 4300 digits),
  \<open>json.dump\<close> writes the document, and \<open>process_chunks_file\<close> reads from it the list
  of the dictionaries of the chunks, in order, and the dictionary of the metadata of the
  textbook, as they were written. The dictionary of a chunk holds every field of the
  chunk: the identifier, each key of the metadata and the content; two chunks with the
  same dictionary are the same chunk.
\<close>

theorem C9_document_roundtrip:
  assumes "dump_fault (document_dict d) = None"
  shows "(\<exists>file. json_dump (document_dict d) = Inr file \<and>
            process_chunks_file file =
              Inr \<lparr>file_chunks = PList (map chunk_dict (doc_chunks d)),
                   file_metadata = model_dump (doc_metadata d)\<rparr>) \<and>
         inj chunk_dict"
proof
  from json_roundtrip [OF assms]
  have "json_dump (document_dict d) = Inr (to_json (document_dict d))"
    and "json_load (to_json (document_dict d)) = Inr (document_dict d)"
    by simp_all
  moreover have "subscript (document_dict d) ''chunks'' = Inr (PList (map chunk_dict (doc_chunks d)))"
    and "subscript (document_dict d) ''metadata'' = Inr (model_dump (doc_metadata d))"
    by (simp_all add: subscript_def document_dict_def asc_def)
  ultimately show "\<exists>file. json_dump (document_dict d) = Inr file \<and>
           process_chunks_file file =
             Inr \<lparr>file_chunks = PList (map chunk_dict (doc_chunks d)),
                  file_metadata = model_dump (doc_metadata d)\<rparr>"
    by (simp add: process_chunks_file_def)
  show "inj chunk_dict"
    by (rule injI) (rule chunk_dict_inj)
qed

theorem C9_witness:
  "dump_fault (document_dict demo_document) = None \<and>
   (\<exists>file. json_dump (document_dict demo_document) = Inr file \<and>
      process_chunks_file file =
        Inr \<lparr>file_chunks = PList (map chunk_dict (doc_chunks demo_document)),
             file_metadata = model_dump (doc_metadata demo_document)\<rparr>) \<and>
   inj chunk_dict"
proof -
  have a: "dump_fault (document_dict demo_document) = None"
    by (simp add: document_dict_def model_dump_def chunk_dict_def metadata_dict_def
        content_dict_def opt_key_def py_strs_def demo_document_def demo_textbook_def
        subject_math_def empty_metadata_def encodable_def formattable_def asc_def int_eval)
  from C9_document_roundtrip [OF a] a show ?thesis by simp
qed

section \<open>Claim C10: a subject that is neither of the two\<close>

lemma process_pages_skipped:
  assumes "subject tm \<noteq> subject_math" and "subject tm \<noteq> subject_history"
    and "list_all readable_page page_files"
  shows "process_pages tm cc all_chunks page_files = Inr all_chunks"
  using assms(3)
proof (induction page_files)
  case Nil
  then show ?case by simp
next
  case (Cons pf pfs)
  from Cons.prems obtain page_num page_text where
    "page_number (stem pf) = Inr page_num" and "page_data_text pf = Some page_text"
    by (auto simp: readable_page_def split: sum.splits)
  with Cons assms(1,2) show ?case
    by (simp add: segment_def)
qed

lemma encodable_asc_keys:
  "encodable (asc ''metadata'')" "encodable (asc ''chunks'')" "encodable (asc ''total_chunks'')"
  by (simp_all add: encodable_def asc_def)

lemma formattable_0: "formattable 0"
  by (simp add: formattable_def str_nat.simps int_max_str_digits_def)

lemma empty_document_dump:
  assumes "dump_fault (model_dump tm) = None"
  shows "json_dump (document_dict \<lparr>doc_metadata = tm, doc_chunks = [], doc_total_chunks = 0\<rparr>) =
           Inr (JObject [(asc ''metadata'', to_json (model_dump tm)), (asc ''chunks'', JArray []),
                         (asc ''total_chunks'', JNumber 0)])"
  using assms by (simp add: json_dump_def document_dict_def encodable_asc_keys formattable_0)

text \<open>
  C10. For a textbook whose subject is neither of the two, the claim is that
  \<open>structure_textbook\<close> raises no error. The page number and the text of each page
  are read before the subject is looked at: a file \<open>page_x.json\<close>, whose name gives
  no page number, or a page without the key \<open>text\<close>, stops the run with an error
  also for such a subject. The name of the output file is built from the subject, and
  the metadata of the textbook is written into the document: a subject with a slash
  names a file in a directory that does not exist, and a title with a lone surrogate
  cannot be encoded, so these runs end with an error as well.
\<close>

theorem C10_counterexample:
  "subject physics_textbook \<noteq> subject_math \<and> subject physics_textbook \<noteq> subject_history \<and>
   structure_textbook [\<lparr>stem = asc ''page_x'', page_data_text = Some (asc ''abc'')\<rparr>]
     physics_textbook plain_directory = Inl (IntValueError (asc ''x'')) \<and>
   structure_textbook [\<lparr>stem = asc ''page_001'', page_data_text = None\<rparr>]
     physics_textbook plain_directory = Inl (KeyError ''text'') \<and>
   subject slash_textbook \<noteq> subject_math \<and> subject slash_textbook \<noteq> subject_history \<and>
   structure_textbook [] slash_textbook plain_directory =
     Inl (OSError (asc ''a/b_7_chunks.json'')) \<and>
   subject surrogate_textbook \<noteq> subject_math \<and>
   subject surrogate_textbook \<noteq> subject_history \<and>
   structure_textbook [] surrogate_textbook plain_directory = Inl UnicodeEncodeError"
  by (simp add: structure_textbook_def physics_textbook_def slash_textbook_def
      surrogate_textbook_def subject_math_def subject_history_def page_number_def
      split.simps asc_def class_eval int_eval plain_directory_def json_dump_def
      document_dict_def model_dump_def encodable_def formattable_def)

text \<open>
  C10, amended. For a textbook whose subject is neither of the two, whose page files
  can all be read, whose output file can be opened for writing and whose metadata can
  be written (no string of it holds a lone surrogate and no integer of it has more than
  4300 digits), \<open>structure_textbook\<close> raises no error: it skips every page, produces
  no chunk, and writes the document with the metadata of the textbook, the empty list
  of chunks and \<open>total_chunks = 0\<close>.
\<close>

theorem C10_unknown_subject:
  assumes "subject tm \<noteq> subject_math" and "subject tm \<noteq> subject_history"
    and "list_all readable_page page_files"
    and "output_dir (subject tm @ asc ''_'' @ str_int (grade tm) @ asc ''_chunks.json'') = None"
    and "dump_fault (model_dump tm) = None"
  shows "structure_textbook page_files tm output_dir =
           Inr \<lparr>output_file = subject tm @ asc ''_'' @ str_int (grade tm) @ asc ''_chunks.json'',
                written = \<lparr>doc_metadata = tm, doc_chunks = [], doc_total_chunks = 0\<rparr>,
                file_content =
                  JObject [(asc ''metadata'', to_json (model_dump tm)), (asc ''chunks'', JArray []),
                           (asc ''total_chunks'', JNumber 0)],
                returned = []\<rparr>"
  using assms(4)
  by (simp add: structure_textbook_def process_pages_skipped [OF assms(1-3)]
      empty_document_dump [OF assms(5)])

theorem C10_witness:
  "subject physics_textbook \<noteq> subject_math \<and> subject physics_textbook \<noteq> subject_history \<and>
   list_all readable_page demo_pages \<and>
   plain_directory (subject physics_textbook @ asc ''_'' @ str_int (grade physics_textbook) @
     asc ''_chunks.json'') = None \<and>
   dump_fault (model_dump physics_textbook) = None \<and>
   structure_textbook demo_pages physics_textbook plain_directory =
     Inr \<lparr>output_file = subject physics_textbook @ asc ''_'' @ str_int (grade physics_textbook) @
            asc ''_chunks.json'',
          written = \<lparr>doc_metadata = physics_textbook, doc_chunks = [], doc_total_chunks = 0\<rparr>,
          file_content =
            JObject [(asc ''metadata'', to_json (model_dump physics_textbook)),
                     (asc ''chunks'', JArray []), (asc ''total_chunks'', JNumber 0)],
          returned = []\<rparr>"
proof -
  have a: "subject physics_textbook \<noteq> subject_math"
    and b: "subject physics_textbook \<noteq> subject_history"
    by (simp_all add: physics_textbook_def subject_math_def subject_history_def)
  have c: "list_all readable_page demo_pages"
    by (simp add: demo_pages_def readable_page_def page_number_def split.simps asc_def
        class_eval int_eval)
  have d: "plain_directory (subject physics_textbook @ asc ''_'' @
      str_int (grade physics_textbook) @ asc ''_chunks.json'') = None"
    by (simp add: plain_directory_def physics_textbook_def asc_def int_eval)
  have e: "dump_fault (model_dump physics_textbook) = None"
    by (simp add: model_dump_def physics_textbook_def encodable_def formattable_def asc_def
        int_eval)
  from C10_unknown_subject [of physics_textbook demo_pages plain_directory, OF a b c d e]
    a b c d e
  show ?thesis by simp
qed

section \<open>Claims C2, C3 and C8: the answer assembler\<close>

lemma demo_search:
  "search_relevant_chunks demo_system (asc ''2+2?'') subject_math 5 3 = Inr demo_chunks"
  by (simp add: search_relevant_chunks_def demo_system_def demo_results_def demo_chunks_def
      result_row_def item0_def)

text \<open>
  C2. When retrieval succeeds and the generation runtime raises an exception, 
  \<open>answer_question\<close> returns a result all the same: its answer is the placeholder
  followed by the text of the exception, hence not empty, and it has one source for
  each retrieved chunk.
\<close>

theorem C2_generation_fault_absorbed:
  assumes "search_relevant_chunks self query subj gr n_results = Inr chunks"
    and "generate self (ollama_model self) (create_prompt query chunks gr subj) = Inl t"
  shows "\<exists>res. answer_question self query subj gr n_results verbose = Inr res \<and>
           answer res = generation_error_prefix @ t \<and> answer res \<noteq> [] \<and>
           length (sources res) = length chunks"
  using assms
  by (simp add: answer_question_def generated_answer_def generation_error_prefix_def)

theorem C2_witness:
  "search_relevant_chunks demo_system (asc ''2+2?'') subject_math 5 3 = Inr demo_chunks \<and>
   generate demo_system (ollama_model demo_system)
     (create_prompt (asc ''2+2?'') demo_chunks 5 subject_math) = Inl (asc ''connection refused'') \<and>
   (\<exists>res. answer_question demo_system (asc ''2+2?'') subject_math 5 3 False = Inr res \<and>
      answer res = generation_error_prefix @ asc ''connection refused'' \<and> answer res \<noteq> [] \<and>
      length (sources res) = length demo_chunks)"
proof -
  have g: "generate demo_system (ollama_model demo_system)
     (create_prompt (asc ''2+2?'') demo_chunks 5 subject_math) = Inl (asc ''connection refused'')"
    by (simp add: demo_system_def)
  from C2_generation_fault_absorbed [OF demo_search g, of False] demo_search g
  show ?thesis by blast
qed

text \<open>
  C3. The claim is that a missing collection gives a condition that can be told from a
  generic fault. \<open>search_relevant_chunks\<close> raises a plain \<open>ValueError\<close> from a bare
  \<open>except\<close> around the lookup of the collection, so every failure of the lookup gives
  this error: the index of the example, which has no collection for history in grade 5,
  and the index that cannot be reached raise the same \<open>ValueError\<close> with the same
  message, "Collection 'textbook_<history>_5' not found. Run 3_create_embeddings.py"
  in Russian.
\<close>

theorem C3_counterexample:
  "get_collection demo_system (collection_name subject_history 5) =
     Inl (ValueError (asc ''Collection does not exist'')) \<and>
   get_collection unreachable_system (collection_name subject_history 5) =
     Inl (RuntimeFault (asc ''connection refused'')) \<and>
   search_relevant_chunks demo_system (asc ''1242?'') subject_history 5 3 =
     Inl (ValueError
            ([1050, 1086, 1083, 1083, 1077, 1082, 1094, 1080, 1103, 32, 39] @
             asc ''textbook_'' @ subject_history @ asc ''_5'' @
             [39, 32, 1085, 1077, 32, 1085, 1072, 1081, 1076, 1077, 1085, 1072, 46, 32, 1047,
              1072, 1087, 1091, 1089, 1090, 1080, 1090, 1077, 32] @
             asc ''3_create_embeddings.py'')) \<and>
   search_relevant_chunks unreachable_system (asc ''1242?'') subject_history 5 3 =
     Inl (ValueError
            ([1050, 1086, 1083, 1083, 1077, 1082, 1094, 1080, 1103, 32, 39] @
             asc ''textbook_'' @ subject_history @ asc ''_5'' @
             [39, 32, 1085, 1077, 32, 1085, 1072, 1081, 1076, 1077, 1085, 1072, 46, 32, 1047,
              1072, 1087, 1091, 1089, 1090, 1080, 1090, 1077, 32] @
             asc ''3_create_embeddings.py''))"
  by (simp add: search_relevant_chunks_def demo_system_def unreachable_system_def
      collection_name_def chroma_collection_prefix_def not_found_message_def
      subject_math_def subject_history_def asc_def int_eval)

text \<open>
  C3, amended. When the lookup of the collection \<open>textbook_<subject>_<grade>\<close>
  raises, as it does when the vector index has no collection for the subject and the
  grade, \<open>search_relevant_chunks\<close> raises a \<open>ValueError\<close> whose message is
  "Collection '<name>' not found. Run 3_create_embeddings.py" in Russian, with the name
  of the collection; the error is not swallowed, and \<open>answer_question\<close> passes the
  same error on to its caller. The error is the same for every failure of the lookup.
  The grade is an integer of at most 4300 digits, so that the name can be formatted.
\<close>

theorem C3_missing_collection:
  assumes "formattable gr"
    and "get_collection self (asc ''textbook_'' @ subj @ asc ''_'' @ str_int gr) = Inl e"
  shows "search_relevant_chunks self query subj gr n_results =
           Inl (ValueError
                  ([1050, 1086, 1083, 1083, 1077, 1082, 1094, 1080, 1103, 32, 39] @
                   asc ''textbook_'' @ subj @ asc ''_'' @ str_int gr @
                   [39, 32, 1085, 1077, 32, 1085, 1072, 1081, 1076, 1077, 1085, 1072, 46, 32, 1047,
                    1072, 1087, 1091, 1089, 1090, 1080, 1090, 1077, 32] @
                   asc ''3_create_embeddings.py'')) \<and>
         answer_question self query subj gr n_results verbose =
           Inl (ValueError
                  ([1050, 1086, 1083, 1083, 1077, 1082, 1094, 1080, 1103, 32, 39] @
                   asc ''textbook_'' @ subj @ asc ''_'' @ str_int gr @
                   [39, 32, 1085, 1077, 32, 1085, 1072, 1081, 1076, 1077, 1085, 1072, 46, 32, 1047,
                    1072, 1087, 1091, 1089, 1090, 1080, 1090, 1077, 32] @
                   asc ''3_create_embeddings.py''))"
  using assms(2)
  by (simp add: search_relevant_chunks_def answer_question_def collection_name_def
      chroma_collection_prefix_def not_found_message_def asc_def)

theorem C3_witness:
  "formattable 5 \<and>
   get_collection demo_system (asc ''textbook_'' @ subject_history @ asc ''_'' @ str_int 5) =
     Inl (ValueError (asc ''Collection does not exist'')) \<and>
   search_relevant_chunks demo_system (asc ''1242?'') subject_history 5 3 =
     Inl (ValueError
            ([1050, 1086, 1083, 1083, 1077, 1082, 1094, 1080, 1103, 32, 39] @
             asc ''textbook_'' @ subject_history @ asc ''_5'' @
             [39, 32, 1085, 1077, 32, 1085, 1072, 1081, 1076, 1077, 1085, 1072, 46, 32, 1047,
              1072, 1087, 1091, 1089, 1090, 1080, 1090, 1077, 32] @
             asc ''3_create_embeddings.py'')) \<and>
   answer_question demo_system (asc ''1242?'') subject_history 5 3 False =
     Inl (ValueError
            ([1050, 1086, 1083, 1083, 1077, 1082, 1094, 1080, 1103, 32, 39] @
             asc ''textbook_'' @ subject_history @ asc ''_5'' @
             [39, 32, 1085, 1077, 32, 1085, 1072, 1081, 1076, 1077, 1085, 1072, 46, 32, 1047,
              1072, 1087, 1091, 1089, 1090, 1080, 1090, 1077, 32] @
             asc ''3_create_embeddings.py''))"
proof -
  have a: "get_collection demo_system (asc ''textbook_'' @ subject_history @ asc ''_'' @ str_int 5) =
     Inl (ValueError (asc ''Collection does not exist''))"
    by (simp add: demo_system_def collection_name_def chroma_collection_prefix_def
        subject_math_def subject_history_def asc_def int_eval)
  have s: "str_int 5 = asc ''5''"
    by (simp add: asc_def int_eval)
  have f: "formattable 5"
    by (simp add: formattable_def str_nat.simps int_max_str_digits_def)
  from C3_missing_collection [OF f a, of "asc ''1242?''" 3 False] f a show ?thesis
    by (simp add: s asc_def)
qed

text \<open>
  C8. The sources of a result of \<open>answer_question\<close> are the retrieved chunks, one
  source for each chunk and in the same order, and the relevance of each source is 1
  minus the distance of its chunk.
\<close>

theorem C8_sources_mirror_chunks:
  assumes "answer_question self query subj gr n_results verbose = Inr res"
  shows "\<exists>chunks. search_relevant_chunks self query subj gr n_results = Inr chunks \<and>
           sources res = map source_of chunks \<and>
           map relevance (sources res) = map (\<lambda>c. 1 - r_distance c) chunks \<and>
           chunks_used (res_metadata res) = int (length chunks)"
  using assms
  by (auto simp: answer_question_def source_of_def split: sum.splits)

theorem C8_witness:
  "\<exists>res. answer_question demo_system (asc ''2+2?'') subject_math 5 3 False = Inr res \<and>
     search_relevant_chunks demo_system (asc ''2+2?'') subject_math 5 3 = Inr demo_chunks \<and>
     sources res = map source_of demo_chunks \<and>
     map relevance (sources res) = [3 / 4, 1 / 2]"
proof -
  obtain res where r: "answer_question demo_system (asc ''2+2?'') subject_math 5 3 False = Inr res"
    by (simp add: answer_question_def demo_search)
  from C8_sources_mirror_chunks [OF r] demo_search
  have s: "sources res = map source_of demo_chunks"
    and m: "map relevance (sources res) = map (\<lambda>c. 1 - r_distance c) demo_chunks"
    by auto
  have v: "map (\<lambda>c. 1 - r_distance c) demo_chunks = [3 / 4, 1 / 2]"
    by (simp add: demo_chunks_def)
  from m v have "map relevance (sources res) = [3 / 4, 1 / 2]"
    by (rule trans)
  with r demo_search s show ?thesis
    by (intro exI [of _ res] conjI)
qed

end
